theory Spec2Isabelle
  imports Main "HOL-Library.Word"
begin

unbundle bit_operations_syntax

section \<open>Machine integers and struct images\<close>

text \<open>
  \<^verbatim>\<open>pg_control_editor.c\<close> keeps the control record in a C struct
  (\<^verbatim>\<open>static ControlFileData ControlFile\<close>) which it fills with
  \<^verbatim>\<open>memcpy\<close> from the bytes read from disk, and on which it takes
  \<^verbatim>\<open>offsetof\<close> and \<^verbatim>\<open>sizeof\<close>.  The struct is therefore modelled as what
  the code treats it as: its image in memory, a list of bytes.  A member is read and
  written at its offset, little-endian.  \<^verbatim>\<open>uint32\<close>, \<^verbatim>\<open>TransactionId\<close>,
  \<^verbatim>\<open>MultiXactId\<close>, \<^verbatim>\<open>MultiXactOffset\<close>, \<^verbatim>\<open>Oid\<close> and
  \<^verbatim>\<open>TimeLineID\<close> are 32-bit words, \<^verbatim>\<open>FullTransactionId\<close> and
  \<^verbatim>\<open>unsigned long\<close> are 64-bit words.
\<close>

type_synonym byte = "8 word"
type_synonym uint32 = "32 word"
type_synonym uint64 = "64 word"

fun le_bytes :: "nat \<Rightarrow> 'a::len word \<Rightarrow> byte list" where
  "le_bytes 0 w = []"
| "le_bytes (Suc n) w = ucast w # le_bytes n (drop_bit 8 w)"

fun le_word :: "byte list \<Rightarrow> 'a::len word" where
  "le_word [] = 0"
| "le_word (b # bs) = ucast b OR push_bit 8 (le_word bs)"

definition load_bytes :: "nat \<Rightarrow> nat \<Rightarrow> byte list \<Rightarrow> byte list" where
  "load_bytes off n m = take n (drop off m)"

definition store_bytes :: "nat \<Rightarrow> byte list \<Rightarrow> byte list \<Rightarrow> byte list" where
  "store_bytes off bs m = take off m @ bs @ drop (off + length bs) m"

definition load32 :: "nat \<Rightarrow> byte list \<Rightarrow> uint32" where
  "load32 off m = le_word (load_bytes off 4 m)"

definition store32 :: "nat \<Rightarrow> uint32 \<Rightarrow> byte list \<Rightarrow> byte list" where
  "store32 off v m = store_bytes off (le_bytes 4 v) m"

definition load64 :: "nat \<Rightarrow> byte list \<Rightarrow> uint64" where
  "load64 off m = le_word (load_bytes off 8 m)"

definition store64 :: "nat \<Rightarrow> uint64 \<Rightarrow> byte list \<Rightarrow> byte list" where
  "store64 off v m = store_bytes off (le_bytes 8 v) m"

section \<open>What the PostgreSQL headers provide\<close>

text \<open>
  The program includes \<^verbatim>\<open>postgres.h\<close>, \<^verbatim>\<open>access/xlog_internal.h\<close>,
  \<^verbatim>\<open>access/multixact.h\<close> and \<^verbatim>\<open>common/controldata_utils.h\<close>, none of
  which is part of the repository.  The constants, macros and the struct layout they
  declare are written down here once.
\<close>

type_synonym ControlFileData = "byte list"

text \<open>
  Modelled from the spec: the layout of \<^verbatim>\<open>ControlFileData\<close> (declared in
  \<^verbatim>\<open>catalog/pg_control.h\<close>, missing from the sources): "a small, fixed-layout binary
  structure" whose checksum "covers all preceding bytes".  The members the program
  touches are listed with the offsets they have in PostgreSQL 17 on an LP64 little-endian
  machine; the proofs below use only that the members lie inside the struct, do not
  overlap, and that \<^verbatim>\<open>crc\<close> comes after all of them.
\<close>

datatype member32 =
    pg_control_version
  | ThisTimeLineID
  | PrevTimeLineID
  | nextOid
  | nextMulti
  | nextMultiOffset
  | oldestXid
  | oldestXidDB
  | oldestMulti
  | oldestMultiDB
  | oldestCommitTsXid
  | newestCommitTsXid
  | xlog_seg_size
  | crc

datatype member64 = nextXid

fun offsetof32 :: "member32 \<Rightarrow> nat" where
  "offsetof32 pg_control_version = 8"
| "offsetof32 ThisTimeLineID = 48"
| "offsetof32 PrevTimeLineID = 52"
| "offsetof32 nextOid = 72"
| "offsetof32 nextMulti = 76"
| "offsetof32 nextMultiOffset = 80"
| "offsetof32 oldestXid = 84"
| "offsetof32 oldestXidDB = 88"
| "offsetof32 oldestMulti = 92"
| "offsetof32 oldestMultiDB = 96"
| "offsetof32 oldestCommitTsXid = 112"
| "offsetof32 newestCommitTsXid = 116"
| "offsetof32 xlog_seg_size = 228"
| "offsetof32 crc = 288"

fun offsetof64 :: "member64 \<Rightarrow> nat" where
  "offsetof64 nextXid = 64"

definition sizeof_ControlFileData :: nat where
  "sizeof_ControlFileData = 296"

definition get32 :: "member32 \<Rightarrow> ControlFileData \<Rightarrow> uint32" where
  "get32 f cf = load32 (offsetof32 f) cf"

definition put32 :: "member32 \<Rightarrow> uint32 \<Rightarrow> ControlFileData \<Rightarrow> ControlFileData" where
  "put32 f v cf = store32 (offsetof32 f) v cf"

definition get64 :: "member64 \<Rightarrow> ControlFileData \<Rightarrow> uint64" where
  "get64 f cf = load64 (offsetof64 f) cf"

definition put64 :: "member64 \<Rightarrow> uint64 \<Rightarrow> ControlFileData \<Rightarrow> ControlFileData" where
  "put64 f v cf = store64 (offsetof64 f) v cf"

text \<open>
  Modelled from the spec: the constants \<^verbatim>\<open>PG_CONTROL_VERSION\<close> ("a known supported
  constant"), \<^verbatim>\<open>PG_CONTROL_FILE_SIZE\<close> (the fixed size of the file),
  \<^verbatim>\<open>XLOG_CONTROL_FILE\<close> ("a single file inside a global subdirectory"),
  \<^verbatim>\<open>XLOG_FNAME_LEN\<close> ("a fixed number of hexadecimal characters"),
  \<^verbatim>\<open>InvalidTransactionId\<close> ("the invalid sentinel (0)"),
  \<^verbatim>\<open>FirstNormalTransactionId\<close> ("a small fixed threshold"),
  \<^verbatim>\<open>FirstMultiXactId\<close> ("the first valid multi-transaction id") and
  \<^verbatim>\<open>InvalidOid\<close>, all missing from the sources, with their PostgreSQL 17 values.
\<close>

definition PG_CONTROL_VERSION :: uint32 where
  "PG_CONTROL_VERSION = 1700"

definition PG_CONTROL_FILE_SIZE :: nat where
  "PG_CONTROL_FILE_SIZE = 8192"

definition PG_CONTROL_FILE_PATH_SIZE :: nat where
  "PG_CONTROL_FILE_PATH_SIZE = 8192"

definition XLOG_CONTROL_FILE :: string where
  "XLOG_CONTROL_FILE = ''global/pg_control''"

definition XLOG_FNAME_LEN :: nat where
  "XLOG_FNAME_LEN = 24"

definition InvalidTransactionId :: uint32 where
  "InvalidTransactionId = 0"

definition FirstNormalTransactionId :: uint32 where
  "FirstNormalTransactionId = 3"

definition FirstMultiXactId :: uint32 where
  "FirstMultiXactId = 1"

definition InvalidOid :: uint32 where
  "InvalidOid = 0"

text \<open>
  Modelled from the spec: the macros of \<^verbatim>\<open>access/transam.h\<close>, missing from the
  sources: the 64-bit value is "logically composed of a 32-bit epoch (high half) and a
  32-bit transaction id (low half)", and a normal transaction id is one at or above the
  threshold.
\<close>

definition EpochFromFullTransactionId :: "uint64 \<Rightarrow> uint32" where
  "EpochFromFullTransactionId x = ucast (drop_bit 32 x)"

definition XidFromFullTransactionId :: "uint64 \<Rightarrow> uint32" where
  "XidFromFullTransactionId x = ucast x"

definition FullTransactionIdFromEpochAndXid :: "uint32 \<Rightarrow> uint32 \<Rightarrow> uint64" where
  "FullTransactionIdFromEpochAndXid epoch xid = push_bit 32 (ucast epoch) OR ucast xid"

definition TransactionIdIsNormal :: "uint32 \<Rightarrow> bool" where
  "TransactionIdIsNormal xid \<longleftrightarrow> xid \<ge> FirstNormalTransactionId"

text \<open>
  Modelled from the spec: the macro \<^verbatim>\<open>IsValidWalSegSize\<close> of
  \<^verbatim>\<open>access/xlog_internal.h\<close>, missing from the sources: the size "must be a power of
  two within an allowed range (1 MiB--1 GiB)".  It is written as the C test for a power
  of two, \<^verbatim>\<open>x > 0 && (x & (x - 1)) == 0\<close>, between the two bounds.
\<close>

definition IsPowerOf2 :: "uint32 \<Rightarrow> bool" where
  "IsPowerOf2 x \<longleftrightarrow> x > 0 \<and> x AND (x - 1) = 0"

definition WalSegMinSize :: uint32 where
  "WalSegMinSize = 1024 * 1024"

definition WalSegMaxSize :: uint32 where
  "WalSegMaxSize = 1024 * 1024 * 1024"

definition IsValidWalSegSize :: "uint32 \<Rightarrow> bool" where
  "IsValidWalSegSize sz \<longleftrightarrow> IsPowerOf2 sz \<and> sz \<ge> WalSegMinSize \<and> sz \<le> WalSegMaxSize"

text \<open>
  Modelled from the spec: the macros \<^verbatim>\<open>INIT_CRC32C\<close>, \<^verbatim>\<open>COMP_CRC32C\<close>,
  \<^verbatim>\<open>FIN_CRC32C\<close> and \<^verbatim>\<open>EQ_CRC32C\<close> of \<^verbatim>\<open>port/pg_crc32c.h\<close>, missing
  from the sources: "a 32-bit CRC variant", here CRC-32C (Castagnoli), bit by bit.
\<close>

definition crc32c_bit :: "uint32 \<Rightarrow> uint32" where
  "crc32c_bit c = (if bit c 0 then drop_bit 1 c XOR 0x82F63B78 else drop_bit 1 c)"

definition crc32c_byte :: "uint32 \<Rightarrow> byte \<Rightarrow> uint32" where
  "crc32c_byte c b = (crc32c_bit ^^ 8) (c XOR ucast b)"

definition crc32c :: "byte list \<Rightarrow> uint32" where
  "crc32c bs = NOT (foldl crc32c_byte 0xFFFFFFFF bs)"

text \<open>
  Modelled from the spec: \<^verbatim>\<open>XLogFromFileName\<close> of
  \<^verbatim>\<open>access/xlog_internal.h\<close>, missing from the sources: it "splits the name into a
  timeline component and a segment-number component".  The name is three groups of eight
  hexadecimal digits (timeline, log, segment), read as \<^verbatim>\<open>sscanf\<close> reads
  \<^verbatim>\<open>%08X%08X%08X\<close>.
\<close>

definition hex_digits :: string where
  "hex_digits = ''01234567890ABCDEFabcdef''"

definition hex_value :: "char \<Rightarrow> nat" where
  "hex_value c =
     (let n = (of_char c :: nat) in
      if 48 \<le> n \<and> n \<le> 57 then n - 48
      else if 65 \<le> n \<and> n \<le> 70 then n - 55
      else n - 87)"

definition scan_08X :: "string \<Rightarrow> nat \<times> string" where
  "scan_08X str =
     (let ds = takeWhile (\<lambda>c. c \<in> set hex_digits) (take 8 str)
      in (foldl (\<lambda>acc c. 16 * acc + hex_value c) 0 ds, drop (length ds) str))"

definition XLogSegmentsPerXLogId :: "uint32 \<Rightarrow> uint64" where
  "XLogSegmentsPerXLogId wal_segsz_bytes = 0x100000000 div ucast wal_segsz_bytes"

definition XLogFromFileName :: "string \<Rightarrow> uint32 \<Rightarrow> uint32 \<times> uint64" where
  "XLogFromFileName fname wal_segsz_bytes =
     (let (tli, rest1) = scan_08X fname;
          (log, rest2) = scan_08X rest1;
          (seg, rest3) = scan_08X rest2
      in (of_nat tli, of_nat log * XLogSegmentsPerXLogId wal_segsz_bytes + of_nat seg))"

section \<open>The program state\<close>

text \<open>
  The file-level variables of \<^verbatim>\<open>pg_control_editor.c\<close> (lines 32--49), the two
  locals of \<^verbatim>\<open>main\<close> that outlive the option loop (\<^verbatim>\<open>set_oldestmxid\<close>,
  \<^verbatim>\<open>log_fname\<close>) and the warnings written to the log.  \<^verbatim>\<open>set_wal_segsize\<close> and
  \<^verbatim>\<open>WalSegSz\<close> are \<^verbatim>\<open>int\<close> in the source; they only ever hold 0 or a size
  between \<open>2^20\<close> and \<open>2^30\<close>, where signed and unsigned reading agree.
\<close>

datatype warning =
    Invalid_CRC
  | Invalid_WAL_segment_size
  | Broken_or_wrong_version

record state =
  ControlFile :: ControlFileData
  DataDirOut :: "string option"
  DataDirIn :: "string option"
  guessed :: bool
  set_oid :: uint32
  set_xid :: uint32
  set_mxid :: uint32
  set_mxoff :: uint32
  minXlogTli :: uint32
  set_oldest_commit_ts_xid :: uint32
  set_newest_commit_ts_xid :: uint32
  set_oldest_xid :: uint32
  set_xid_epoch :: uint32
  set_wal_segsize :: uint32
  WalSegSz :: uint32
  minXlogSegNo :: uint64
  set_oldestmxid :: uint32
  log_fname :: "string option"
  warnings :: "warning list"

definition initial_state :: state where
  "initial_state =
     \<lparr> ControlFile = replicate sizeof_ControlFileData 0,
       DataDirOut = None,
       DataDirIn = None,
       guessed = False,
       set_oid = 0,
       set_xid = 0,
       set_mxid = 0,
       set_mxoff = - 1,
       minXlogTli = 0,
       set_oldest_commit_ts_xid = 0,
       set_newest_commit_ts_xid = 0,
       set_oldest_xid = 0,
       set_xid_epoch = - 1,
       set_wal_segsize = 0,
       WalSegSz = 0,
       minXlogSegNo = 0,
       set_oldestmxid = 0,
       log_fname = None,
       warnings = [] \<rparr>"

section \<open>Errors\<close>

text \<open>
  Every \<^verbatim>\<open>exit(1)\<close> and \<^verbatim>\<open>pg_fatal\<close> of the source is one constructor, named
  after its message.  In the words of the specification: \<open>Oid_must_not_be_0\<close> is
  InvalidOid; \<open>Xid_not_normal\<close>, \<open>Oldest_xid_not_normal\<close> and
  \<open>Commit_ts_xid_not_valid\<close> are InvalidTransactionId;
  \<open>Mxid_must_not_be_0\<close> and \<open>Oldest_mxid_must_not_be_0\<close> are
  InvalidMultiTransactionId; \<open>Mxoff_must_not_be_minus_1\<close> is InvalidOffset;
  \<open>Epoch_must_not_be_minus_1\<close> is InvalidEpoch; \<open>Invalid_argument ''-l''\<close> is
  ResolveError::InvalidFormat; \<open>Wal_segsize_not_valid\<close> is InvalidSegmentSize.
\<close>

datatype error =
    Invalid_argument string
  | Oid_must_not_be_0
  | Xid_not_normal
  | Mxid_must_not_be_0
  | Oldest_mxid_must_not_be_0
  | Mxoff_must_not_be_minus_1
  | Commit_ts_xid_not_valid
  | Epoch_must_not_be_minus_1
  | Oldest_xid_not_normal
  | Wal_segsize_not_valid
  | Getopt_complaint
  | Too_many_arguments
  | Directories_not_specified
  | Could_not_open_for_reading
  | Could_not_read_file
  | Could_not_read_control_file
  | Cannot_mkdir string
  | Cannot_create string
  | Could_not_open_for_writing

section \<open>Option parsing (lines 85--250)\<close>

text \<open>
  \<^verbatim>\<open>getopt_long\<close>, \<^verbatim>\<open>strtoul\<close> and \<^verbatim>\<open>option_parse_int\<close> belong to the C
  library and to PostgreSQL's frontend library.  What they return is the input of the
  model: one \<open>cli_opt\<close> per option found by \<^verbatim>\<open>getopt_long\<close>, carrying for each
  call of \<^verbatim>\<open>strtoul\<close> its return value (an \<^verbatim>\<open>unsigned long\<close>), whether
  \<^verbatim>\<open>endptr\<close> was left at the start of the string, the characters from
  \<^verbatim>\<open>*endptr\<close> on (empty when \<^verbatim>\<open>*endptr\<close> is the terminating NUL) and whether
  \<^verbatim>\<open>errno\<close> was set.  The assignment of the \<^verbatim>\<open>unsigned long\<close> to a 32-bit
  variable truncates (\<open>ucast\<close>).
\<close>

record strtoul_out =
  ul_value :: uint64
  ul_endptr_at_start :: bool
  ul_rest :: string
  ul_errno :: bool

datatype cli_opt =
    Opt_D string
  | Opt_d string
  | Opt_o strtoul_out
  | Opt_x strtoul_out
  | Opt_m strtoul_out strtoul_out
  | Opt_O strtoul_out
  | Opt_c strtoul_out strtoul_out
  | Opt_e strtoul_out
  | Opt_l string
  | Opt_u strtoul_out
  | Opt_wal_segsize "int option"
  | Opt_unknown

definition strspn :: "string \<Rightarrow> string \<Rightarrow> nat" where
  "strspn str accept = length (takeWhile (\<lambda>c. c \<in> set accept) str)"

definition not_fully_parsed :: "strtoul_out \<Rightarrow> bool" where
  "not_fully_parsed r \<longleftrightarrow> ul_endptr_at_start r \<or> ul_rest r \<noteq> [] \<or> ul_errno r"

definition not_parsed_up_to_comma :: "strtoul_out \<Rightarrow> bool" where
  "not_parsed_up_to_comma r \<longleftrightarrow> ul_endptr_at_start r \<or> take 1 (ul_rest r) \<noteq> '','' \<or> ul_errno r"

fun getopt_case :: "cli_opt \<Rightarrow> state \<Rightarrow> error + state" where
  "getopt_case (Opt_D optarg) s = Inr (s\<lparr>DataDirIn := Some optarg\<rparr>)"
| "getopt_case (Opt_d optarg) s = Inr (s\<lparr>DataDirOut := Some optarg\<rparr>)"
| "getopt_case (Opt_o r) s =
     (let s' = s\<lparr>set_oid := ucast (ul_value r)\<rparr> in
      if not_fully_parsed r then Inl (Invalid_argument ''-o'')
      else if set_oid s' = 0 then Inl Oid_must_not_be_0
      else Inr s')"
| "getopt_case (Opt_x r) s =
     (let s' = s\<lparr>set_xid := ucast (ul_value r)\<rparr> in
      if not_fully_parsed r then Inl (Invalid_argument ''-x'')
      else if \<not> TransactionIdIsNormal (set_xid s') then Inl Xid_not_normal
      else Inr s')"
| "getopt_case (Opt_m r r2) s =
     (let s' = s\<lparr>set_mxid := ucast (ul_value r)\<rparr> in
      if not_parsed_up_to_comma r then Inl (Invalid_argument ''-m'')
      else
        let s'' = s'\<lparr>set_oldestmxid := ucast (ul_value r2)\<rparr> in
        if ul_endptr_at_start r2 \<or> ul_rest r2 \<noteq> [] \<or> ul_errno r \<or> ul_errno r2
        then Inl (Invalid_argument ''-m'')
        else if set_mxid s'' = 0 then Inl Mxid_must_not_be_0
        else if set_oldestmxid s'' = 0 then Inl Oldest_mxid_must_not_be_0
        else Inr s'')"
| "getopt_case (Opt_O r) s =
     (let s' = s\<lparr>set_mxoff := ucast (ul_value r)\<rparr> in
      if not_fully_parsed r then Inl (Invalid_argument ''-O'')
      else if set_mxoff s' = - 1 then Inl Mxoff_must_not_be_minus_1
      else Inr s')"
| "getopt_case (Opt_c r r2) s =
     (let s' = s\<lparr>set_oldest_commit_ts_xid := ucast (ul_value r)\<rparr> in
      if not_parsed_up_to_comma r then Inl (Invalid_argument ''-c'')
      else
        let s'' = s'\<lparr>set_newest_commit_ts_xid := ucast (ul_value r2)\<rparr> in
        if ul_endptr_at_start r2 \<or> ul_rest r2 \<noteq> [] \<or> ul_errno r \<or> ul_errno r2
        then Inl (Invalid_argument ''-c'')
        else if set_oldest_commit_ts_xid s'' < FirstNormalTransactionId \<and>
                set_oldest_commit_ts_xid s'' \<noteq> InvalidTransactionId
        then Inl Commit_ts_xid_not_valid
        else if set_newest_commit_ts_xid s'' < FirstNormalTransactionId \<and>
                set_newest_commit_ts_xid s'' \<noteq> InvalidTransactionId
        then Inl Commit_ts_xid_not_valid
        else Inr s'')"
| "getopt_case (Opt_e r) s =
     (let s' = s\<lparr>set_xid_epoch := ucast (ul_value r)\<rparr> in
      if not_fully_parsed r then Inl (Invalid_argument ''-e'')
      else if set_xid_epoch s' = - 1 then Inl Epoch_must_not_be_minus_1
      else Inr s')"
| "getopt_case (Opt_l optarg) s =
     (if strspn optarg hex_digits \<noteq> XLOG_FNAME_LEN then Inl (Invalid_argument ''-l'')
      else Inr (s\<lparr>log_fname := Some optarg\<rparr>))"
| "getopt_case (Opt_u r) s =
     (let s' = s\<lparr>set_oldest_xid := ucast (ul_value r)\<rparr> in
      if not_fully_parsed r then Inl (Invalid_argument ''-u'')
      else if \<not> TransactionIdIsNormal (set_oldest_xid s') then Inl Oldest_xid_not_normal
      else Inr s')"
| "getopt_case (Opt_wal_segsize parsed) s =
     (case parsed of
        None \<Rightarrow> Inl (Invalid_argument ''--wal-segsize'')
      | Some wal_segsize_mb \<Rightarrow>
          if wal_segsize_mb < 1 \<or> wal_segsize_mb > 1024
          then Inl (Invalid_argument ''--wal-segsize'')
          else
            let s' = s\<lparr>set_wal_segsize := word_of_int (wal_segsize_mb * 1024 * 1024)\<rparr> in
            if \<not> IsValidWalSegSize (set_wal_segsize s') then Inl Wal_segsize_not_valid
            else Inr s')"
| "getopt_case Opt_unknown s = Inl Getopt_complaint"

fun getopt_loop :: "cli_opt list \<Rightarrow> state \<Rightarrow> error + state" where
  "getopt_loop [] s = Inr s"
| "getopt_loop (c # cs) s =
     (case getopt_case c s of Inl e \<Rightarrow> Inl e | Inr s' \<Rightarrow> getopt_loop cs s')"

section \<open>The file system\<close>

text \<open>
  A path names a directory or a regular file with its content.  \<open>refuses\<close> stands for
  every reason other than \<^verbatim>\<open>EEXIST\<close> for which \<^verbatim>\<open>mkdir\<close> or
  \<^verbatim>\<open>open(O_EXCL | O_CREAT)\<close> can fail at a path (a missing parent, permissions).
  The two calls return the \<^verbatim>\<open>errno\<close> of a failure, or \<open>None\<close>, and the file
  system they leave.
\<close>

datatype node = Dir | File "byte list"

record fs =
  nodes :: "string \<Rightarrow> node option"
  refuses :: "string \<Rightarrow> bool"

datatype errno = EEXIST | EOTHER

definition mkdir :: "string \<Rightarrow> fs \<Rightarrow> errno option \<times> fs" where
  "mkdir path fsys =
     (if nodes fsys path \<noteq> None then (Some EEXIST, fsys)
      else if refuses fsys path then (Some EOTHER, fsys)
      else (None, fsys\<lparr>nodes := (nodes fsys)(path \<mapsto> Dir)\<rparr>))"

definition open_excl_creat :: "string \<Rightarrow> fs \<Rightarrow> errno option \<times> fs" where
  "open_excl_creat path fsys =
     (if nodes fsys path \<noteq> None then (Some EEXIST, fsys)
      else if refuses fsys path then (Some EOTHER, fsys)
      else (None, fsys\<lparr>nodes := (nodes fsys)(path \<mapsto> File [])\<rparr>))"

text \<open>\<^verbatim>\<open>snprintf(buf, n, ...)\<close> stores at most \<open>n - 1\<close> characters.\<close>

definition snprintf :: "nat \<Rightarrow> string \<Rightarrow> string" where
  "snprintf n str = take (n - 1) str"

section \<open>\<^verbatim>\<open>read_controlfile\<close> (lines 341--412)\<close>

text \<open>
  Lines 378--411, on the bytes that \<^verbatim>\<open>read\<close> delivered (\<open>len\<close> is their
  number).  The result is the returned \<^verbatim>\<open>bool\<close> and the updated variables.
\<close>

definition read_controlfile_buffer :: "byte list \<Rightarrow> state \<Rightarrow> bool \<times> state" where
  "read_controlfile_buffer buffer s =
     (let len = length buffer in
      if len \<ge> sizeof_ControlFileData \<and>
         get32 pg_control_version buffer = PG_CONTROL_VERSION
      then
        let crc' = crc32c (take (offsetof32 crc) buffer);
            s1 = (if crc' \<noteq> get32 crc buffer
                  then s\<lparr>warnings := warnings s @ [Invalid_CRC], guessed := True\<rparr>
                  else s);
            s2 = s1\<lparr>ControlFile := take sizeof_ControlFileData buffer\<rparr>
        in
          if \<not> IsValidWalSegSize (get32 xlog_seg_size (ControlFile s2))
          then (False, s2\<lparr>warnings := warnings s2 @ [Invalid_WAL_segment_size]\<rparr>)
          else (True, s2)
      else (False, s\<lparr>warnings := warnings s @ [Broken_or_wrong_version]\<rparr>))"

definition read_controlfile :: "string \<Rightarrow> fs \<Rightarrow> state \<Rightarrow> error + bool \<times> state" where
  "read_controlfile pgdata_in fsys s =
     (let filepath = snprintf (PG_CONTROL_FILE_PATH_SIZE - 1)
                       (pgdata_in @ ''/'' @ XLOG_CONTROL_FILE)
      in case nodes fsys filepath of
           None \<Rightarrow> Inl Could_not_open_for_reading
         | Some Dir \<Rightarrow> Inl Could_not_read_file
         | Some (File content) \<Rightarrow>
             Inr (read_controlfile_buffer (take PG_CONTROL_FILE_SIZE content) s))"

section \<open>The overrides (lines 275--326)\<close>

text \<open>One definition per statement of \<^verbatim>\<open>main\<close>, in the order of the source.\<close>

definition choose_WalSegSz :: "state \<Rightarrow> state" where
  "choose_WalSegSz s =
     (if set_wal_segsize s \<noteq> 0 then s\<lparr>WalSegSz := set_wal_segsize s\<rparr>
      else s\<lparr>WalSegSz := get32 xlog_seg_size (ControlFile s)\<rparr>)"

definition resolve_log_fname :: "state \<Rightarrow> state" where
  "resolve_log_fname s =
     (case log_fname s of
        None \<Rightarrow> s
      | Some fname \<Rightarrow>
          (let (tli, segno) = XLogFromFileName fname (WalSegSz s)
           in s\<lparr>minXlogTli := tli, minXlogSegNo := segno\<rparr>))"

definition apply_set_oid :: "state \<Rightarrow> state" where
  "apply_set_oid s =
     (if set_oid s \<noteq> 0
      then s\<lparr>ControlFile := put32 nextOid (set_oid s) (ControlFile s)\<rparr>
      else s)"

definition apply_set_xid :: "state \<Rightarrow> state" where
  "apply_set_xid s =
     (if set_xid s \<noteq> 0
      then s\<lparr>ControlFile :=
               put64 nextXid
                 (FullTransactionIdFromEpochAndXid
                    (EpochFromFullTransactionId (get64 nextXid (ControlFile s)))
                    (set_xid s))
                 (ControlFile s)\<rparr>
      else s)"

definition apply_set_mxid :: "state \<Rightarrow> state" where
  "apply_set_mxid s =
     (if set_mxid s \<noteq> 0
      then
        let cf1 = put32 nextMulti (set_mxid s) (ControlFile s);
            cf2 = put32 oldestMulti (set_oldestmxid s) cf1;
            cf3 = (if get32 oldestMulti cf2 < FirstMultiXactId
                   then put32 oldestMulti (get32 oldestMulti cf2 + FirstMultiXactId) cf2
                   else cf2)
        in s\<lparr>ControlFile := put32 oldestMultiDB InvalidOid cf3\<rparr>
      else s)"

definition apply_set_mxoff :: "state \<Rightarrow> state" where
  "apply_set_mxoff s =
     (if set_mxoff s \<noteq> - 1
      then s\<lparr>ControlFile := put32 nextMultiOffset (set_mxoff s) (ControlFile s)\<rparr>
      else s)"

definition apply_minXlogTli :: "state \<Rightarrow> state" where
  "apply_minXlogTli s =
     (if minXlogTli s > get32 ThisTimeLineID (ControlFile s)
      then s\<lparr>ControlFile :=
               put32 PrevTimeLineID (minXlogTli s)
                 (put32 ThisTimeLineID (minXlogTli s) (ControlFile s))\<rparr>
      else s)"

definition apply_set_oldest_commit_ts_xid :: "state \<Rightarrow> state" where
  "apply_set_oldest_commit_ts_xid s =
     (if set_oldest_commit_ts_xid s \<noteq> 0
      then s\<lparr>ControlFile :=
               put32 oldestCommitTsXid (set_oldest_commit_ts_xid s) (ControlFile s)\<rparr>
      else s)"

definition apply_set_newest_commit_ts_xid :: "state \<Rightarrow> state" where
  "apply_set_newest_commit_ts_xid s =
     (if set_newest_commit_ts_xid s \<noteq> 0
      then s\<lparr>ControlFile :=
               put32 newestCommitTsXid (set_newest_commit_ts_xid s) (ControlFile s)\<rparr>
      else s)"

definition apply_set_xid_epoch :: "state \<Rightarrow> state" where
  "apply_set_xid_epoch s =
     (if set_xid_epoch s \<noteq> - 1
      then s\<lparr>ControlFile :=
               put64 nextXid
                 (FullTransactionIdFromEpochAndXid
                    (set_xid_epoch s)
                    (XidFromFullTransactionId (get64 nextXid (ControlFile s))))
                 (ControlFile s)\<rparr>
      else s)"

definition apply_set_oldest_xid :: "state \<Rightarrow> state" where
  "apply_set_oldest_xid s =
     (if set_oldest_xid s \<noteq> 0
      then s\<lparr>ControlFile :=
               put32 oldestXidDB InvalidOid
                 (put32 oldestXid (set_oldest_xid s) (ControlFile s))\<rparr>
      else s)"

definition apply_set_wal_segsize :: "state \<Rightarrow> state" where
  "apply_set_wal_segsize s =
     (if set_wal_segsize s \<noteq> 0
      then s\<lparr>ControlFile := put32 xlog_seg_size (WalSegSz s) (ControlFile s)\<rparr>
      else s)"

definition apply_overrides :: "state \<Rightarrow> state" where
  "apply_overrides s =
     apply_set_wal_segsize
       (apply_set_oldest_xid
         (apply_set_xid_epoch
           (apply_set_newest_commit_ts_xid
             (apply_set_oldest_commit_ts_xid
               (apply_minXlogTli
                 (apply_set_mxoff
                   (apply_set_mxid
                     (apply_set_xid
                       (apply_set_oid
                         (resolve_log_fname
                           (choose_WalSegSz s)))))))))))"

section \<open>Writing the result (lines 328--330 and 415--449)\<close>

definition make_datadir_out_if_not_exists :: "string \<Rightarrow> fs \<Rightarrow> error option \<times> fs" where
  "make_datadir_out_if_not_exists pgdata_out fsys =
     (let (err, fs1) = mkdir pgdata_out fsys in
      if err \<noteq> None \<and> err \<noteq> Some EEXIST then (Some (Cannot_mkdir pgdata_out), fs1)
      else
        let filepath = snprintf (PG_CONTROL_FILE_PATH_SIZE - 1) (pgdata_out @ ''/global'');
            (err, fs2) = mkdir filepath fs1
        in
          if err \<noteq> None \<and> err \<noteq> Some EEXIST then (Some (Cannot_mkdir filepath), fs2)
          else
            let filepath = snprintf (PG_CONTROL_FILE_PATH_SIZE - 1)
                             (pgdata_out @ ''/'' @ XLOG_CONTROL_FILE);
                (err, fs3) = open_excl_creat filepath fs2
            in
              if err \<noteq> None \<and> err \<noteq> Some EEXIST then (Some (Cannot_create filepath), fs3)
              else (None, fs3))"

text \<open>
  Modelled from the spec: \<^verbatim>\<open>update_controlfile\<close>, a function of PostgreSQL's common
  library that \<^verbatim>\<open>main\<close> calls at line 330 and that is missing from the sources.
  The specification's \<open>encode\<close> "produces the fixed-size byte layout byte-for-byte
  compatible with what decode accepts, recomputing the checksum over the same byte range
  used at decode time"; the materializer "writes the full encoded payload in one
  operation" to the record file.  \<open>update_controlfile_buffer\<close> is the encoding: the
  struct with its \<^verbatim>\<open>crc\<close> member recomputed over the bytes before it, padded with
  zero bytes to the size of the file.  \<open>update_controlfile\<close> writes it at the start of
  the record file, which must exist; a write does not truncate, so bytes of an earlier
  file beyond the length of the payload stay.
\<close>

definition update_controlfile_buffer :: "ControlFileData \<Rightarrow> byte list" where
  "update_controlfile_buffer cf =
     (let cf' = put32 crc (crc32c (take (offsetof32 crc) cf)) cf
      in cf' @ replicate (PG_CONTROL_FILE_SIZE - length cf') 0)"

definition update_controlfile :: "string \<Rightarrow> ControlFileData \<Rightarrow> fs \<Rightarrow> error option \<times> fs" where
  "update_controlfile DataDir cf fsys =
     (let buffer = update_controlfile_buffer cf;
          path = DataDir @ ''/'' @ XLOG_CONTROL_FILE
      in case nodes fsys path of
           Some (File old) \<Rightarrow>
             (None, fsys\<lparr>nodes := (nodes fsys)(path \<mapsto> File (buffer @ drop (length buffer) old))\<rparr>)
         | _ \<Rightarrow> (Some Could_not_open_for_writing, fsys))"

text \<open>Lines 328--330 of \<^verbatim>\<open>main\<close>: the two calls that write the result.\<close>

definition materialize :: "string \<Rightarrow> ControlFileData \<Rightarrow> fs \<Rightarrow> error option \<times> fs" where
  "materialize pgdata_out cf fsys =
     (let (e1, fs1) = make_datadir_out_if_not_exists pgdata_out fsys
      in if e1 \<noteq> None then (e1, fs1) else update_controlfile pgdata_out cf fs1)"

section \<open>\<^verbatim>\<open>main\<close> (lines 51--331)\<close>

text \<open>
  Lines 76--83, the first thing \<^verbatim>\<open>main\<close> does with its arguments: when there is
  an argument after the program name and it is \<^verbatim>\<open>--help\<close> or \<^verbatim>\<open>-?\<close>, the
  program prints the usage text and exits with status 0.  \<open>argv\<close> is the argument
  vector, the program name first.
\<close>

definition help_requested :: "string list \<Rightarrow> bool" where
  "help_requested argv \<longleftrightarrow>
     length argv > 1 \<and> (argv ! 1 = ''--help'' \<or> argv ! 1 = ''-?'')"

text \<open>
  \<open>argv\<close> is the argument vector, \<open>opts\<close> are the options \<^verbatim>\<open>getopt_long\<close>
  finds in it, in order, and \<open>rest\<close> the arguments left after them.  The result is
  the error the program exits with, if any (\<open>None\<close> is exit status 0), the file
  system it leaves and the warnings it printed.  The usage text goes to the standard
  output, which the result does not record.
\<close>

definition main ::
  "string list \<Rightarrow> cli_opt list \<Rightarrow> string list \<Rightarrow> fs \<Rightarrow> error option \<times> fs \<times> warning list" where
  "main argv opts rest fsys =
     (if help_requested argv then (None, fsys, [])
      else
        (case getopt_loop opts initial_state of
           Inl e \<Rightarrow> (Some e, fsys, [])
         | Inr s \<Rightarrow>
             if rest \<noteq> [] then (Some Too_many_arguments, fsys, [])
             else if DataDirIn s = None \<or> DataDirOut s = None
             then (Some Directories_not_specified, fsys, [])
             else
               (case read_controlfile (the (DataDirIn s)) fsys s of
                  Inl e \<Rightarrow> (Some e, fsys, [])
                | Inr (ok, s1) \<Rightarrow>
                    if \<not> ok then (Some Could_not_read_control_file, fsys, warnings s1)
                    else
                      (let s2 = apply_overrides s1;
                           (e, fs') = materialize (the (DataDirOut s2)) (ControlFile s2) fsys
                       in (e, fs', warnings s2)))))"

section \<open>Inputs used in the examples\<close>

text \<open>
  What \<^verbatim>\<open>strtoul\<close> reports for a string that is a number, and for a number followed
  by a comma and more characters; and a file system with nothing in it.
\<close>

definition parsed :: "uint64 \<Rightarrow> strtoul_out" where
  "parsed v = \<lparr> ul_value = v, ul_endptr_at_start = False, ul_rest = [], ul_errno = False \<rparr>"

definition parsed_up_to_comma :: "uint64 \<Rightarrow> string \<Rightarrow> strtoul_out" where
  "parsed_up_to_comma v chars =
     \<lparr> ul_value = v, ul_endptr_at_start = False, ul_rest = CHR '','' # chars, ul_errno = False \<rparr>"

definition empty_fs :: fs where
  "empty_fs = \<lparr> nodes = (\<lambda>path. None), refuses = (\<lambda>path. False) \<rparr>"

text \<open>An argument vector that does not ask for help, and the options found in it.\<close>

definition example_argv :: "string list" where
  "example_argv = [''pg_control_editor'', ''-D'', ''in'', ''-d'', ''out'', ''-x'', ''5000'', ''-e'', ''2'']"

definition example_opts :: "cli_opt list" where
  "example_opts = [Opt_D ''in'', Opt_d ''out'', Opt_x (parsed 5000), Opt_e (parsed 2)]"

text \<open>
  A control record of the supported version with 16 MiB segments and zero in every
  other member (its \<^verbatim>\<open>crc\<close> member included).
\<close>

definition example_record :: ControlFileData where
  "example_record =
     put32 xlog_seg_size (16 * 1024 * 1024)
       (put32 pg_control_version PG_CONTROL_VERSION (replicate sizeof_ControlFileData 0))"

text \<open>
  A file system in which the output directory, its \<^verbatim>\<open>global\<close> subdirectory and a
  record file of three bytes already exist.
\<close>

definition fs_with_record_file :: fs where
  "fs_with_record_file =
     \<lparr> nodes = [''out'' \<mapsto> Dir, ''out/global'' \<mapsto> Dir,
                 ''out/global/pg_control'' \<mapsto> File [1, 2, 3]],
       refuses = (\<lambda>path. False) \<rparr>"

text \<open>
  A file system that holds only the input record file, with \<open>example_record\<close> as
  its content.
\<close>

definition fs_with_input :: fs where
  "fs_with_input =
     \<lparr> nodes = [''in/global/pg_control'' \<mapsto> File example_record],
       refuses = (\<lambda>path. False) \<rparr>"

text \<open>
  A control record like \<open>example_record\<close>, but with all ones in the epoch half
  of \<^verbatim>\<open>nextXid\<close> and in \<^verbatim>\<open>nextMultiOffset\<close>, and a file system that holds only
  the input record file with this content.
\<close>

definition record_with_sentinels :: ControlFileData where
  "record_with_sentinels = put32 nextMultiOffset (- 1) (put64 nextXid (- 1) example_record)"

definition fs_with_sentinels :: fs where
  "fs_with_sentinels =
     \<lparr> nodes = [''in/global/pg_control'' \<mapsto> File record_with_sentinels],
       refuses = (\<lambda>path. False) \<rparr>"

section \<open>Struct images: reading back what was written\<close>

lemma length_le_bytes [simp]: "length (le_bytes n w) = n"
  by (induction n arbitrary: w) auto

lemma le_word_le_bytes: "le_word (le_bytes n w) = take_bit (8 * n) w"
proof (induction n arbitrary: w)
  case 0
  show ?case by simp
next
  case (Suc n)
  have "ucast (ucast w :: byte) OR push_bit 8 (take_bit (8 * n) (drop_bit 8 w))
          = take_bit (8 * Suc n) w"
    by (rule bit_word_eqI) (auto simp: bit_simps)
  with Suc show ?case by simp
qed

lemma le_word_le_bytes32 [simp]: "le_word (le_bytes 4 (v :: uint32)) = v"
  by (simp add: le_word_le_bytes take_bit_word_eq_self)

lemma le_word_le_bytes64 [simp]: "le_word (le_bytes 8 (v :: uint64)) = v"
  by (simp add: le_word_le_bytes take_bit_word_eq_self)

lemma length_store_bytes:
  "off + length bs \<le> length m \<Longrightarrow> length (store_bytes off bs m) = length m"
  by (simp add: store_bytes_def)

lemma load_store_bytes_same:
  "off + length bs \<le> length m \<Longrightarrow> load_bytes off (length bs) (store_bytes off bs m) = bs"
  by (simp add: load_bytes_def store_bytes_def)

lemma load_store_bytes_before:
  "off' + n \<le> off \<Longrightarrow> off + length bs \<le> length m \<Longrightarrow>
   load_bytes off' n (store_bytes off bs m) = load_bytes off' n m"
  by (simp add: load_bytes_def store_bytes_def drop_take)

lemma load_store_bytes_after:
  "off + length bs \<le> off' \<Longrightarrow> off + length bs \<le> length m \<Longrightarrow>
   load_bytes off' n (store_bytes off bs m) = load_bytes off' n m"
  by (simp add: load_bytes_def store_bytes_def min_def)

lemma take_store_bytes:
  "n \<le> off \<Longrightarrow> off + length bs \<le> length m \<Longrightarrow> take n (store_bytes off bs m) = take n m"
  by (simp add: store_bytes_def min_def)

lemma drop_store_bytes:
  "off + length bs \<le> n \<Longrightarrow> off + length bs \<le> length m \<Longrightarrow>
   drop n (store_bytes off bs m) = drop n m"
  by (simp add: store_bytes_def min_def)

lemma offsetof32_inside: "offsetof32 f + 4 \<le> sizeof_ControlFileData"
  by (cases f) (simp_all add: sizeof_ControlFileData_def)

lemma offsetof32_disjoint:
  "f \<noteq> g \<Longrightarrow> offsetof32 f + 4 \<le> offsetof32 g \<or> offsetof32 g + 4 \<le> offsetof32 f"
  by (cases f; cases g) simp_all

lemma offsetof32_nextXid:
  "offsetof32 f + 4 \<le> offsetof64 nextXid \<or> offsetof64 nextXid + 8 \<le> offsetof32 f"
  by (cases f) simp_all

lemma offsetof32_before_crc: "f \<noteq> crc \<Longrightarrow> offsetof32 f + 4 \<le> offsetof32 crc"
  by (cases f) simp_all

lemma length_put32 [simp]:
  "sizeof_ControlFileData \<le> length cf \<Longrightarrow> length (put32 f v cf) = length cf"
  using offsetof32_inside [of f]
  by (simp add: put32_def store32_def length_store_bytes)

lemma length_put64 [simp]:
  "sizeof_ControlFileData \<le> length cf \<Longrightarrow> length (put64 f v cf) = length cf"
  by (cases f) (simp add: put64_def store64_def length_store_bytes sizeof_ControlFileData_def)

lemma get32_put32_same [simp]:
  "sizeof_ControlFileData \<le> length cf \<Longrightarrow> get32 f (put32 f v cf) = v"
  using offsetof32_inside [of f] load_store_bytes_same [of "offsetof32 f" "le_bytes 4 v" cf]
  by (simp add: get32_def put32_def load32_def store32_def)

lemma get32_put32_other [simp]:
  "f \<noteq> g \<Longrightarrow> sizeof_ControlFileData \<le> length cf \<Longrightarrow> get32 f (put32 g v cf) = get32 f cf"
  using offsetof32_inside [of g] offsetof32_disjoint [of f g]
    load_store_bytes_before [of "offsetof32 f" 4 "offsetof32 g" "le_bytes 4 v" cf]
    load_store_bytes_after [of "offsetof32 g" "le_bytes 4 v" "offsetof32 f" cf 4]
  by (auto simp add: get32_def put32_def load32_def store32_def)

lemma get64_put64_same [simp]:
  "sizeof_ControlFileData \<le> length cf \<Longrightarrow> get64 f (put64 f v cf) = v"
  using load_store_bytes_same [of "offsetof64 f" "le_bytes 8 v" cf]
  by (cases f) (simp add: get64_def put64_def load64_def store64_def sizeof_ControlFileData_def)

lemma get32_put64 [simp]:
  "sizeof_ControlFileData \<le> length cf \<Longrightarrow> get32 f (put64 g v cf) = get32 f cf"
  using offsetof32_nextXid [of f]
    load_store_bytes_before [of "offsetof32 f" 4 "offsetof64 g" "le_bytes 8 v" cf]
    load_store_bytes_after [of "offsetof64 g" "le_bytes 8 v" "offsetof32 f" cf 4]
  by (cases g) (auto simp add: get32_def put64_def load32_def store64_def sizeof_ControlFileData_def)

lemma get64_put32 [simp]:
  "sizeof_ControlFileData \<le> length cf \<Longrightarrow> get64 f (put32 g v cf) = get64 f cf"
  using offsetof32_nextXid [of g] offsetof32_inside [of g]
    load_store_bytes_before [of "offsetof64 f" 8 "offsetof32 g" "le_bytes 4 v" cf]
    load_store_bytes_after [of "offsetof32 g" "le_bytes 4 v" "offsetof64 f" cf 8]
  by (cases f) (auto simp add: get64_def put32_def load64_def store32_def)

section \<open>The packed transaction id\<close>

lemma Epoch_FullTransactionId [simp]:
  "EpochFromFullTransactionId (FullTransactionIdFromEpochAndXid e x) = e"
  unfolding EpochFromFullTransactionId_def FullTransactionIdFromEpochAndXid_def
  by (rule bit_word_eqI) (auto simp: bit_simps dest: bit_imp_le_length)

lemma Xid_FullTransactionId [simp]:
  "XidFromFullTransactionId (FullTransactionIdFromEpochAndXid e x) = x"
  unfolding XidFromFullTransactionId_def FullTransactionIdFromEpochAndXid_def
  by (rule bit_word_eqI) (auto simp: bit_simps)

lemma TransactionIdIsNormal_nonzero: "TransactionIdIsNormal x \<Longrightarrow> x \<noteq> 0"
  by (auto simp: TransactionIdIsNormal_def FirstNormalTransactionId_def)

lemma length_initial_ControlFile [simp]:
  "length (ControlFile initial_state) = sizeof_ControlFileData"
  by (simp add: initial_state_def)

text \<open>
  C3.  Epoch and transaction id are independent.  Take any state whose control record is
  a struct image, an epoch \<open>E\<close> other than the all-ones sentinel and a normal
  transaction id \<open>X\<close>.  Setting the epoch and then the next transaction id, or the
  next transaction id and then the epoch (the order of \<^verbatim>\<open>main\<close>, lines 286--289 and
  314--317), leaves a \<^verbatim>\<open>nextXid\<close> whose high 32 bits are \<open>E\<close> and whose low 32
  bits are \<open>X\<close>; and each of the two setters alone keeps the half it does not set.
\<close>

theorem epoch_xid_independence:
  assumes "length (ControlFile base) = sizeof_ControlFileData"
    and "E \<noteq> - 1"
    and "TransactionIdIsNormal X"
  shows "EpochFromFullTransactionId (get64 nextXid (ControlFile
           (apply_set_xid (apply_set_xid_epoch (base\<lparr>set_xid := X, set_xid_epoch := E\<rparr>))))) = E
       \<and> XidFromFullTransactionId (get64 nextXid (ControlFile
           (apply_set_xid (apply_set_xid_epoch (base\<lparr>set_xid := X, set_xid_epoch := E\<rparr>))))) = X
       \<and> EpochFromFullTransactionId (get64 nextXid (ControlFile
           (apply_set_xid_epoch (apply_set_xid (base\<lparr>set_xid := X, set_xid_epoch := E\<rparr>))))) = E
       \<and> XidFromFullTransactionId (get64 nextXid (ControlFile
           (apply_set_xid_epoch (apply_set_xid (base\<lparr>set_xid := X, set_xid_epoch := E\<rparr>))))) = X
       \<and> EpochFromFullTransactionId (get64 nextXid (ControlFile
           (apply_set_xid (base\<lparr>set_xid := X\<rparr>))))
           = EpochFromFullTransactionId (get64 nextXid (ControlFile base))
       \<and> XidFromFullTransactionId (get64 nextXid (ControlFile
           (apply_set_xid_epoch (base\<lparr>set_xid_epoch := E\<rparr>))))
           = XidFromFullTransactionId (get64 nextXid (ControlFile base))"
proof -
  have "X \<noteq> 0"
    using assms(3) by (rule TransactionIdIsNormal_nonzero)
  with assms(1,2) show ?thesis
    by (simp add: apply_set_xid_def apply_set_xid_epoch_def)
qed

theorem epoch_xid_independence_witness:
  "EpochFromFullTransactionId (get64 nextXid (ControlFile
     (apply_set_xid (apply_set_xid_epoch (initial_state\<lparr>set_xid := 5000, set_xid_epoch := 2\<rparr>))))) = 2
 \<and> XidFromFullTransactionId (get64 nextXid (ControlFile
     (apply_set_xid (apply_set_xid_epoch (initial_state\<lparr>set_xid := 5000, set_xid_epoch := 2\<rparr>))))) = 5000
 \<and> EpochFromFullTransactionId (get64 nextXid (ControlFile
     (apply_set_xid_epoch (apply_set_xid (initial_state\<lparr>set_xid := 5000, set_xid_epoch := 2\<rparr>))))) = 2
 \<and> XidFromFullTransactionId (get64 nextXid (ControlFile
     (apply_set_xid_epoch (apply_set_xid (initial_state\<lparr>set_xid := 5000, set_xid_epoch := 2\<rparr>))))) = 5000"
  using epoch_xid_independence [of initial_state 2 5000]
  by (simp add: TransactionIdIsNormal_def FirstNormalTransactionId_def)

section \<open>The setters\<close>

lemma parsed_ok [simp]:
  "\<not> not_fully_parsed (parsed v)" "ul_value (parsed v) = v"
  "\<not> not_parsed_up_to_comma (parsed_up_to_comma v chars)"
  "ul_value (parsed_up_to_comma v chars) = v"
  by (simp_all add: parsed_def parsed_up_to_comma_def not_fully_parsed_def
      not_parsed_up_to_comma_def)

lemmas step_defs =
  choose_WalSegSz_def resolve_log_fname_def apply_set_oid_def apply_set_xid_def
  apply_set_mxid_def apply_set_mxoff_def apply_minXlogTli_def
  apply_set_oldest_commit_ts_xid_def apply_set_newest_commit_ts_xid_def
  apply_set_xid_epoch_def apply_set_oldest_xid_def apply_set_wal_segsize_def

lemma length_ControlFile_step [simp]:
  assumes "sizeof_ControlFileData \<le> length (ControlFile s)"
  shows "length (ControlFile (choose_WalSegSz s)) = length (ControlFile s)"
    and "length (ControlFile (resolve_log_fname s)) = length (ControlFile s)"
    and "length (ControlFile (apply_set_oid s)) = length (ControlFile s)"
    and "length (ControlFile (apply_set_xid s)) = length (ControlFile s)"
    and "length (ControlFile (apply_set_mxid s)) = length (ControlFile s)"
    and "length (ControlFile (apply_set_mxoff s)) = length (ControlFile s)"
    and "length (ControlFile (apply_minXlogTli s)) = length (ControlFile s)"
    and "length (ControlFile (apply_set_oldest_commit_ts_xid s)) = length (ControlFile s)"
    and "length (ControlFile (apply_set_newest_commit_ts_xid s)) = length (ControlFile s)"
    and "length (ControlFile (apply_set_xid_epoch s)) = length (ControlFile s)"
    and "length (ControlFile (apply_set_oldest_xid s)) = length (ControlFile s)"
    and "length (ControlFile (apply_set_wal_segsize s)) = length (ControlFile s)"
  using assms
  by (simp_all add: step_defs Let_def split: option.split prod.split)

lemma length_ControlFile_apply_overrides [simp]:
  "sizeof_ControlFileData \<le> length (ControlFile s) \<Longrightarrow>
   length (ControlFile (apply_overrides s)) = length (ControlFile s)"
  by (simp add: apply_overrides_def)

lemma getopt_case_m:
  assumes "\<not> not_parsed_up_to_comma r" and "\<not> not_fully_parsed r2"
  shows "getopt_case (Opt_m r r2) s =
     (if (ucast (ul_value r) :: uint32) = 0 then Inl Mxid_must_not_be_0
      else if (ucast (ul_value r2) :: uint32) = 0 then Inl Oldest_mxid_must_not_be_0
      else Inr (s\<lparr>set_mxid := ucast (ul_value r), set_oldestmxid := ucast (ul_value r2)\<rparr>))"
  using assms by (simp add: not_parsed_up_to_comma_def not_fully_parsed_def Let_def)

lemma ControlFile_apply_set_mxid:
  assumes "sizeof_ControlFileData \<le> length (ControlFile s)" and "set_mxid s \<noteq> 0"
  shows "get32 nextMulti (ControlFile (apply_set_mxid s)) = set_mxid s"
    and "get32 oldestMulti (ControlFile (apply_set_mxid s)) =
          (if set_oldestmxid s < FirstMultiXactId then set_oldestmxid s + FirstMultiXactId
           else set_oldestmxid s)"
    and "get32 oldestMultiDB (ControlFile (apply_set_mxid s)) = InvalidOid"
  using assms by (simp_all add: apply_set_mxid_def Let_def)

text \<open>
  C4.  The multi-transaction setter (option \<^verbatim>\<open>-m\<close>, lines 123--149, and lines
  290--298).  For a pair that \<^verbatim>\<open>strtoul\<close> parsed, \<open>next_mxid\<close> and
  \<open>oldest_mxid\<close> being the two values as stored in the 32-bit variables: a zero
  \<open>next_mxid\<close> is rejected with \<open>Mxid_must_not_be_0\<close> and a zero \<open>oldest_mxid\<close>
  with \<open>Oldest_mxid_must_not_be_0\<close> (InvalidMultiTransactionId); a pair with both
  nonzero is accepted.  Applied to the record, the setter stores \<open>next_mxid\<close> into
  \<^verbatim>\<open>nextMulti\<close>, stores into \<^verbatim>\<open>oldestMulti\<close> the value
  \<open>oldest_mxid + FirstMultiXactId\<close> when \<open>oldest_mxid\<close> is below
  \<open>FirstMultiXactId\<close> and \<open>oldest_mxid\<close> itself otherwise, and resets
  \<^verbatim>\<open>oldestMultiDB\<close> to \<open>InvalidOid\<close>.
\<close>

theorem multixact_setter:
  assumes "length (ControlFile s) = sizeof_ControlFileData"
    and "\<not> not_parsed_up_to_comma r" and "\<not> not_fully_parsed r2"
    and "ucast (ul_value r) = next_mxid" and "ucast (ul_value r2) = oldest_mxid"
  shows "getopt_case (Opt_m r r2) s =
           (if next_mxid = 0 then Inl Mxid_must_not_be_0
            else if oldest_mxid = 0 then Inl Oldest_mxid_must_not_be_0
            else Inr (s\<lparr>set_mxid := next_mxid, set_oldestmxid := oldest_mxid\<rparr>))
       \<and> (next_mxid \<noteq> 0 \<longrightarrow>
            get32 nextMulti (ControlFile (apply_set_mxid
              (s\<lparr>set_mxid := next_mxid, set_oldestmxid := oldest_mxid\<rparr>))) = next_mxid
          \<and> get32 oldestMulti (ControlFile (apply_set_mxid
              (s\<lparr>set_mxid := next_mxid, set_oldestmxid := oldest_mxid\<rparr>))) =
                (if oldest_mxid < FirstMultiXactId then oldest_mxid + FirstMultiXactId
                 else oldest_mxid)
          \<and> get32 oldestMultiDB (ControlFile (apply_set_mxid
              (s\<lparr>set_mxid := next_mxid, set_oldestmxid := oldest_mxid\<rparr>))) = InvalidOid)"
  using assms getopt_case_m [of r r2 s]
    ControlFile_apply_set_mxid [of "s\<lparr>set_mxid := next_mxid, set_oldestmxid := oldest_mxid\<rparr>"]
  by auto

theorem multixact_setter_witness:
  "getopt_case (Opt_m (parsed_up_to_comma 7 ''5'') (parsed 5)) initial_state =
     Inr (initial_state\<lparr>set_mxid := 7, set_oldestmxid := 5\<rparr>)
 \<and> get32 nextMulti (ControlFile (apply_set_mxid
       (initial_state\<lparr>set_mxid := 7, set_oldestmxid := 5\<rparr>))) = 7
 \<and> get32 oldestMulti (ControlFile (apply_set_mxid
       (initial_state\<lparr>set_mxid := 7, set_oldestmxid := 5\<rparr>))) = 5
 \<and> get32 oldestMultiDB (ControlFile (apply_set_mxid
       (initial_state\<lparr>set_mxid := 7, set_oldestmxid := 5\<rparr>))) = 0
 \<and> getopt_case (Opt_m (parsed_up_to_comma 0 ''5'') (parsed 5)) initial_state =
     Inl Mxid_must_not_be_0
 \<and> getopt_case (Opt_m (parsed_up_to_comma 7 ''0'') (parsed 0)) initial_state =
     Inl Oldest_mxid_must_not_be_0
 \<and> get32 oldestMulti (ControlFile (apply_set_mxid
       (initial_state\<lparr>set_mxid := 7, set_oldestmxid := 0\<rparr>))) = 1"
  using multixact_setter [of initial_state "parsed_up_to_comma 7 ''5''" "parsed 5" 7 5]
    multixact_setter [of initial_state "parsed_up_to_comma 0 ''5''" "parsed 5" 0 5]
    multixact_setter [of initial_state "parsed_up_to_comma 7 ''0''" "parsed 0" 7 0]
  by (simp add: FirstMultiXactId_def InvalidOid_def)

lemma getopt_case_c:
  assumes "\<not> not_parsed_up_to_comma r" and "\<not> not_fully_parsed r2"
  shows "getopt_case (Opt_c r r2) s =
     (if ((ucast (ul_value r) :: uint32) = 0 \<or> TransactionIdIsNormal (ucast (ul_value r))) \<and>
         ((ucast (ul_value r2) :: uint32) = 0 \<or> TransactionIdIsNormal (ucast (ul_value r2)))
      then Inr (s\<lparr>set_oldest_commit_ts_xid := ucast (ul_value r),
                   set_newest_commit_ts_xid := ucast (ul_value r2)\<rparr>)
      else Inl Commit_ts_xid_not_valid)"
  using assms
  by (auto simp add: not_parsed_up_to_comma_def not_fully_parsed_def Let_def
      TransactionIdIsNormal_def InvalidTransactionId_def not_le)

lemma ControlFile_apply_commit_ts:
  assumes "sizeof_ControlFileData \<le> length (ControlFile s)"
  shows "get32 oldestCommitTsXid
           (ControlFile (apply_set_newest_commit_ts_xid (apply_set_oldest_commit_ts_xid s))) =
          (if set_oldest_commit_ts_xid s \<noteq> 0 then set_oldest_commit_ts_xid s
           else get32 oldestCommitTsXid (ControlFile s))"
    and "get32 newestCommitTsXid
           (ControlFile (apply_set_newest_commit_ts_xid (apply_set_oldest_commit_ts_xid s))) =
          (if set_newest_commit_ts_xid s \<noteq> 0 then set_newest_commit_ts_xid s
           else get32 newestCommitTsXid (ControlFile s))"
  using assms
  by (simp_all add: apply_set_newest_commit_ts_xid_def apply_set_oldest_commit_ts_xid_def)

text \<open>
  C6, as the claim states it, fails.  The record below has 5 as its oldest
  commit-timestamp transaction id.  The pair (0, 0) is accepted by option \<^verbatim>\<open>-c\<close>
  (lines 164--188), and after lines 309--312 the bound is still 5: it has not been
  replaced by the supplied value 0.
\<close>

theorem commit_ts_zero_is_no_change:
  "getopt_case (Opt_c (parsed_up_to_comma 0 ''0'') (parsed 0))
     (initial_state\<lparr>ControlFile := put32 oldestCommitTsXid 5 (ControlFile initial_state)\<rparr>)
   = Inr (initial_state\<lparr>ControlFile := put32 oldestCommitTsXid 5 (ControlFile initial_state),
                         set_oldest_commit_ts_xid := 0, set_newest_commit_ts_xid := 0\<rparr>)
 \<and> get32 oldestCommitTsXid (ControlFile
       (apply_set_newest_commit_ts_xid (apply_set_oldest_commit_ts_xid
         (initial_state\<lparr>ControlFile := put32 oldestCommitTsXid 5 (ControlFile initial_state),
                          set_oldest_commit_ts_xid := 0, set_newest_commit_ts_xid := 0\<rparr>)))) = 5"
  by (simp add: getopt_case_c ControlFile_apply_commit_ts TransactionIdIsNormal_def
      del: getopt_case.simps)

text \<open>
  C6, amended.  The commit-timestamp setter (option \<^verbatim>\<open>-c\<close>, lines 164--188, and
  lines 309--312).  For a pair that \<^verbatim>\<open>strtoul\<close> parsed, \<open>oldest\<close> and
  \<open>newest\<close> being the two values as stored in the 32-bit variables: the pair is
  accepted when each value is 0 or a normal transaction id, and rejected with
  \<open>Commit_ts_xid_not_valid\<close> (InvalidTransactionId) otherwise.  Applied to the record,
  a nonzero value replaces its bound and a zero value leaves its bound as it was, each
  bound independently of the other.
\<close>

theorem commit_ts_bounds_setter:
  assumes "length (ControlFile s) = sizeof_ControlFileData"
    and "\<not> not_parsed_up_to_comma r" and "\<not> not_fully_parsed r2"
    and "ucast (ul_value r) = oldest" and "ucast (ul_value r2) = newest"
  shows "getopt_case (Opt_c r r2) s =
           (if (oldest = 0 \<or> TransactionIdIsNormal oldest) \<and>
               (newest = 0 \<or> TransactionIdIsNormal newest)
            then Inr (s\<lparr>set_oldest_commit_ts_xid := oldest, set_newest_commit_ts_xid := newest\<rparr>)
            else Inl Commit_ts_xid_not_valid)
       \<and> get32 oldestCommitTsXid (ControlFile
            (apply_set_newest_commit_ts_xid (apply_set_oldest_commit_ts_xid
              (s\<lparr>set_oldest_commit_ts_xid := oldest, set_newest_commit_ts_xid := newest\<rparr>)))) =
            (if oldest \<noteq> 0 then oldest else get32 oldestCommitTsXid (ControlFile s))
       \<and> get32 newestCommitTsXid (ControlFile
            (apply_set_newest_commit_ts_xid (apply_set_oldest_commit_ts_xid
              (s\<lparr>set_oldest_commit_ts_xid := oldest, set_newest_commit_ts_xid := newest\<rparr>)))) =
            (if newest \<noteq> 0 then newest else get32 newestCommitTsXid (ControlFile s))"
  using assms getopt_case_c [of r r2 s]
    ControlFile_apply_commit_ts
      [of "s\<lparr>set_oldest_commit_ts_xid := oldest, set_newest_commit_ts_xid := newest\<rparr>"]
  by simp

theorem commit_ts_bounds_setter_witness:
  "getopt_case (Opt_c (parsed_up_to_comma 1000 ''0'') (parsed 0)) initial_state =
     Inr (initial_state\<lparr>set_oldest_commit_ts_xid := 1000, set_newest_commit_ts_xid := 0\<rparr>)
 \<and> get32 oldestCommitTsXid (ControlFile
      (apply_set_newest_commit_ts_xid (apply_set_oldest_commit_ts_xid
        (initial_state\<lparr>set_oldest_commit_ts_xid := 1000, set_newest_commit_ts_xid := 0\<rparr>)))) = 1000
 \<and> get32 newestCommitTsXid (ControlFile
      (apply_set_newest_commit_ts_xid (apply_set_oldest_commit_ts_xid
        (initial_state\<lparr>set_oldest_commit_ts_xid := 1000, set_newest_commit_ts_xid := 0\<rparr>)))) =
     get32 newestCommitTsXid (ControlFile initial_state)
 \<and> getopt_case (Opt_c (parsed_up_to_comma 2 ''1000'') (parsed 1000)) initial_state =
     Inl Commit_ts_xid_not_valid"
  using commit_ts_bounds_setter [of initial_state "parsed_up_to_comma 1000 ''0''" "parsed 0" 1000 0]
    commit_ts_bounds_setter [of initial_state "parsed_up_to_comma 2 ''1000''" "parsed 1000" 2 1000]
  by (simp add: TransactionIdIsNormal_def FirstNormalTransactionId_def)

lemma mxoff_step:
  assumes "sizeof_ControlFileData \<le> length (ControlFile s)"
  shows "get32 nextMultiOffset (ControlFile (choose_WalSegSz s)) = get32 nextMultiOffset (ControlFile s)"
    and "get32 nextMultiOffset (ControlFile (resolve_log_fname s)) = get32 nextMultiOffset (ControlFile s)"
    and "get32 nextMultiOffset (ControlFile (apply_set_oid s)) = get32 nextMultiOffset (ControlFile s)"
    and "get32 nextMultiOffset (ControlFile (apply_set_xid s)) = get32 nextMultiOffset (ControlFile s)"
    and "get32 nextMultiOffset (ControlFile (apply_set_mxid s)) = get32 nextMultiOffset (ControlFile s)"
    and "get32 nextMultiOffset (ControlFile (apply_set_mxoff s)) =
           (if set_mxoff s \<noteq> - 1 then set_mxoff s else get32 nextMultiOffset (ControlFile s))"
    and "get32 nextMultiOffset (ControlFile (apply_minXlogTli s)) = get32 nextMultiOffset (ControlFile s)"
    and "get32 nextMultiOffset (ControlFile (apply_set_oldest_commit_ts_xid s)) = get32 nextMultiOffset (ControlFile s)"
    and "get32 nextMultiOffset (ControlFile (apply_set_newest_commit_ts_xid s)) = get32 nextMultiOffset (ControlFile s)"
    and "get32 nextMultiOffset (ControlFile (apply_set_xid_epoch s)) = get32 nextMultiOffset (ControlFile s)"
    and "get32 nextMultiOffset (ControlFile (apply_set_oldest_xid s)) = get32 nextMultiOffset (ControlFile s)"
    and "get32 nextMultiOffset (ControlFile (apply_set_wal_segsize s)) = get32 nextMultiOffset (ControlFile s)"
  using assms
  by (simp_all add: step_defs Let_def split: option.split prod.split)

lemma epoch_step:
  assumes "sizeof_ControlFileData \<le> length (ControlFile s)"
  shows "get64 nextXid (ControlFile (choose_WalSegSz s)) = get64 nextXid (ControlFile s)"
    and "get64 nextXid (ControlFile (resolve_log_fname s)) = get64 nextXid (ControlFile s)"
    and "get64 nextXid (ControlFile (apply_set_oid s)) = get64 nextXid (ControlFile s)"
    and "EpochFromFullTransactionId (get64 nextXid (ControlFile (apply_set_xid s))) =
           EpochFromFullTransactionId (get64 nextXid (ControlFile s))"
    and "get64 nextXid (ControlFile (apply_set_mxid s)) = get64 nextXid (ControlFile s)"
    and "get64 nextXid (ControlFile (apply_set_mxoff s)) = get64 nextXid (ControlFile s)"
    and "get64 nextXid (ControlFile (apply_minXlogTli s)) = get64 nextXid (ControlFile s)"
    and "get64 nextXid (ControlFile (apply_set_oldest_commit_ts_xid s)) = get64 nextXid (ControlFile s)"
    and "get64 nextXid (ControlFile (apply_set_newest_commit_ts_xid s)) = get64 nextXid (ControlFile s)"
    and "EpochFromFullTransactionId (get64 nextXid (ControlFile (apply_set_xid_epoch s))) =
           (if set_xid_epoch s \<noteq> - 1 then set_xid_epoch s
            else EpochFromFullTransactionId (get64 nextXid (ControlFile s)))"
    and "get64 nextXid (ControlFile (apply_set_oldest_xid s)) = get64 nextXid (ControlFile s)"
    and "get64 nextXid (ControlFile (apply_set_wal_segsize s)) = get64 nextXid (ControlFile s)"
  using assms
  by (simp_all add: step_defs Let_def split: option.split prod.split)

lemma mxoff_never_minus_1:
  assumes "sizeof_ControlFileData \<le> length (ControlFile s)"
    and "get32 nextMultiOffset (ControlFile (apply_overrides s)) = - 1"
  shows "get32 nextMultiOffset (ControlFile s) = - 1"
  using assms
  by (simp add: apply_overrides_def mxoff_step split: if_splits)

lemma epoch_never_minus_1:
  assumes "sizeof_ControlFileData \<le> length (ControlFile s)"
    and "EpochFromFullTransactionId (get64 nextXid (ControlFile (apply_overrides s))) = - 1"
  shows "EpochFromFullTransactionId (get64 nextXid (ControlFile s)) = - 1"
  using assms
  by (simp add: apply_overrides_def epoch_step split: if_splits)

lemma ucast_mask_32: "(ucast (mask 32 :: uint64) :: uint32) = - 1"
  by (rule bit_word_eqI) (auto simp: bit_simps)

lemma getopt_loop_append:
  "getopt_loop (before @ c # after) s0 =
     (case getopt_loop before s0 of
        Inl e \<Rightarrow> Inl e
      | Inr s \<Rightarrow> (case getopt_case c s of Inl e \<Rightarrow> Inl e | Inr s' \<Rightarrow> getopt_loop after s'))"
  by (induction before arbitrary: s0) (simp_all split: sum.split)

lemma main_rejected:
  "\<not> help_requested argv \<Longrightarrow>
   getopt_loop before initial_state = Inr s \<Longrightarrow> getopt_case c s = Inl e \<Longrightarrow>
   main argv (before @ c # after) rest fsys = (Some e, fsys, [])"
  by (simp add: main_def getopt_loop_append)

lemma main_rejected_whatever_precedes:
  assumes "\<not> help_requested argv" and "\<And>s. getopt_case c s = Inl e"
  shows "fst (main argv (before @ c # after) rest fsys) \<noteq> None
       \<and> fst (snd (main argv (before @ c # after) rest fsys)) = fsys"
  using assms
  by (cases "getopt_loop before initial_state") (simp_all add: main_def getopt_loop_append)

lemma main_help:
  "help_requested argv \<Longrightarrow> main argv opts rest fsys = (None, fsys, [])"
  by (simp add: main_def)

lemma help_requested_examples [simp]:
  "\<not> help_requested example_argv"
  "help_requested [''pg_control_editor'', ''--help'', ''-e'', ''4294967295'']"
  "help_requested [''pg_control_editor'', ''-?'']"
  "\<not> help_requested [''pg_control_editor'', ''-D'', ''in'', ''-e'', ''4294967295'', ''-d'', ''out'']"
  "\<not> help_requested [''pg_control_editor'', ''-D'', ''in'', ''-O'', ''4294967295'', ''-d'', ''out'']"
  "\<not> help_requested [''pg_control_editor'', ''-D'', ''in'', ''-d'', ''out'', ''-x'', ''5000'']"
  by (simp_all add: help_requested_def example_argv_def)

lemma ControlFile_apply_minXlogTli:
  assumes "sizeof_ControlFileData \<le> length (ControlFile s)"
  shows "minXlogTli s > get32 ThisTimeLineID (ControlFile s) \<Longrightarrow>
           get32 ThisTimeLineID (ControlFile (apply_minXlogTli s)) = minXlogTli s \<and>
           get32 PrevTimeLineID (ControlFile (apply_minXlogTli s)) = minXlogTli s"
    and "\<not> minXlogTli s > get32 ThisTimeLineID (ControlFile s) \<Longrightarrow>
           apply_minXlogTli s = s"
    and "f \<noteq> ThisTimeLineID \<Longrightarrow> f \<noteq> PrevTimeLineID \<Longrightarrow>
           get32 f (ControlFile (apply_minXlogTli s)) = get32 f (ControlFile s)"
    and "get64 g (ControlFile (apply_minXlogTli s)) = get64 g (ControlFile s)"
  using assms
  by (simp_all add: apply_minXlogTli_def)

text \<open>
  C8.  The timeline floor (lines 303--307).  \<open>tli\<close> is the timeline resolved from
  the requested WAL file name, \<open>s\<close> any state whose control record is a struct
  image.  If \<open>tli\<close> is strictly greater than the record's \<^verbatim>\<open>ThisTimeLineID\<close>,
  both \<^verbatim>\<open>ThisTimeLineID\<close> and \<^verbatim>\<open>PrevTimeLineID\<close> become \<open>tli\<close>; if it is
  not, the record is left as it is.  In both cases every other member keeps its value.
  The step is a total function: it has no error result.
\<close>

theorem timeline_floor_bump:
  assumes "length (ControlFile s) = sizeof_ControlFileData"
  shows "(if tli > get32 ThisTimeLineID (ControlFile s)
          then get32 ThisTimeLineID (ControlFile (apply_minXlogTli (s\<lparr>minXlogTli := tli\<rparr>))) = tli
             \<and> get32 PrevTimeLineID (ControlFile (apply_minXlogTli (s\<lparr>minXlogTli := tli\<rparr>))) = tli
          else ControlFile (apply_minXlogTli (s\<lparr>minXlogTli := tli\<rparr>)) = ControlFile s)
       \<and> (\<forall>f. f \<noteq> ThisTimeLineID \<and> f \<noteq> PrevTimeLineID \<longrightarrow>
            get32 f (ControlFile (apply_minXlogTli (s\<lparr>minXlogTli := tli\<rparr>)))
              = get32 f (ControlFile s))
       \<and> get64 nextXid (ControlFile (apply_minXlogTli (s\<lparr>minXlogTli := tli\<rparr>)))
            = get64 nextXid (ControlFile s)"
  using assms ControlFile_apply_minXlogTli [of "s\<lparr>minXlogTli := tli\<rparr>"]
  by (simp split: if_splits)

theorem timeline_floor_bump_witness:
  "get32 ThisTimeLineID (ControlFile (apply_minXlogTli
     (initial_state\<lparr>ControlFile := put32 ThisTimeLineID 2 (ControlFile initial_state),
                     minXlogTli := 3\<rparr>))) = 3
 \<and> get32 PrevTimeLineID (ControlFile (apply_minXlogTli
     (initial_state\<lparr>ControlFile := put32 ThisTimeLineID 2 (ControlFile initial_state),
                     minXlogTli := 3\<rparr>))) = 3
 \<and> ControlFile (apply_minXlogTli
     (initial_state\<lparr>ControlFile := put32 ThisTimeLineID 2 (ControlFile initial_state),
                     minXlogTli := 2\<rparr>))
     = put32 ThisTimeLineID 2 (ControlFile initial_state)
 \<and> get32 nextOid (ControlFile (apply_minXlogTli
     (initial_state\<lparr>ControlFile := put32 ThisTimeLineID 2 (ControlFile initial_state),
                     minXlogTli := 3\<rparr>)))
     = get32 nextOid (ControlFile initial_state)"
  using timeline_floor_bump
      [of "initial_state\<lparr>ControlFile := put32 ThisTimeLineID 2 (ControlFile initial_state)\<rparr>" 3]
    timeline_floor_bump
      [of "initial_state\<lparr>ControlFile := put32 ThisTimeLineID 2 (ControlFile initial_state)\<rparr>" 2]
  by simp

text \<open>
  C9.  The check of the WAL file name (option \<^verbatim>\<open>-l\<close>, lines 205--218) measures
  with \<^verbatim>\<open>strspn\<close> the run of hexadecimal characters at the start of the argument
  and compares it with \<^verbatim>\<open>XLOG_FNAME_LEN\<close>.  It does not look at what follows the
  run: the argument below has 32 characters, ends in characters that are not
  hexadecimal, and is accepted.
\<close>

theorem wal_file_name_with_suffix_accepted:
  "getopt_case (Opt_l ''000000010000000000000001.partial'') initial_state =
     Inr (initial_state\<lparr>log_fname := Some ''000000010000000000000001.partial''\<rparr>)"
  by (simp add: strspn_def hex_digits_def XLOG_FNAME_LEN_def)

section \<open>Decoding\<close>

lemma nat_power_of_two:
  fixes n :: nat
  shows "0 < n \<Longrightarrow> n AND (n - 1) = 0 \<Longrightarrow> \<exists>k. n = 2 ^ k"
proof (induction n rule: less_induct)
  case (less n)
  have half: "(n div 2) AND ((n - 1) div 2) = 0"
    using less.prems(2) drop_bit_and [of 1 n "n - 1"]
    by (simp add: drop_bit_eq_div)
  show ?case
  proof (cases "even n")
    case True
    then obtain m where m: "n = 2 * m" by (elim evenE)
    with less.prems(1) have "0 < m" by simp
    moreover have "(n - 1) div 2 = m - 1" using m \<open>0 < m\<close> by auto
    ultimately have "\<exists>k. m = 2 ^ k"
      using less.IH [of m] half m by simp
    then obtain k where "m = 2 ^ k" ..
    with m have "n = 2 ^ Suc k" by simp
    then show ?thesis ..
  next
    case False
    then obtain m where m: "n = 2 * m + 1" by (elim oddE)
    then have "n div 2 = m" "(n - 1) div 2 = m" by simp_all
    with half have "m = 0" by simp
    with m have "n = 2 ^ 0" by simp
    then show ?thesis ..
  qed
qed

lemma IsPowerOf2_power:
  assumes "IsPowerOf2 x"
  shows "\<exists>k. unat x = 2 ^ k \<and> x = 2 ^ k"
proof -
  from assms have pos: "x \<noteq> 0" and zero: "x AND (x - 1) = 0"
    by (auto simp: IsPowerOf2_def)
  have "unat x AND unat (x - 1) = 0"
    using zero unsigned_and_eq [of x "x - 1", where 'a = nat, symmetric] by simp
  moreover have "unat (x - 1) = unat x - 1"
    using pos by (simp add: unat_minus_one)
  moreover have "0 < unat x"
    using pos by (simp add: unat_gt_0)
  ultimately obtain k where k: "unat x = 2 ^ k"
    using nat_power_of_two [of "unat x"] by auto
  have "x = word_of_nat (unat x)" by simp
  also have "\<dots> = 2 ^ k" by (simp only: k of_nat_power of_nat_numeral)
  finally show ?thesis using k by blast
qed

lemma IsValidWalSegSize_iff:
  "IsValidWalSegSize sz \<longleftrightarrow> (\<exists>k. 20 \<le> k \<and> k \<le> 30 \<and> sz = 2 ^ k)"
proof
  assume v: "IsValidWalSegSize sz"
  then obtain k where k: "unat sz = 2 ^ k" "sz = 2 ^ k"
    using IsPowerOf2_power [of sz] by (auto simp: IsValidWalSegSize_def)
  from v have "unat (2 ^ 20 :: uint32) \<le> unat sz" "unat sz \<le> unat (2 ^ 30 :: uint32)"
    by (simp_all add: IsValidWalSegSize_def WalSegMinSize_def WalSegMaxSize_def word_le_nat_alt)
  then have "(2::nat) ^ 20 \<le> 2 ^ k" "(2::nat) ^ k \<le> 2 ^ 30"
    using k(1) by simp_all
  then have "20 \<le> k \<and> k \<le> 30"
    by (simp only: power_increasing_iff one_less_numeral_iff semiring_norm)
  with k show "\<exists>k. 20 \<le> k \<and> k \<le> 30 \<and> sz = 2 ^ k" by blast
next
  assume "\<exists>k. 20 \<le> k \<and> k \<le> 30 \<and> sz = 2 ^ k"
  then obtain k where "20 \<le> k" "k \<le> 30" "sz = 2 ^ k" by blast
  then have "k = 20 \<or> k = 21 \<or> k = 22 \<or> k = 23 \<or> k = 24 \<or> k = 25 \<or> k = 26 \<or>
             k = 27 \<or> k = 28 \<or> k = 29 \<or> k = 30"
    by arith
  with \<open>sz = 2 ^ k\<close> show "IsValidWalSegSize sz"
    by (auto simp: IsValidWalSegSize_def IsPowerOf2_def WalSegMinSize_def WalSegMaxSize_def)
qed


lemma get32_take:
  "offsetof32 f + 4 \<le> n \<Longrightarrow> get32 f (take n buf) = get32 f buf"
  by (simp add: get32_def load32_def load_bytes_def drop_take min_def)

lemma get32_append:
  "offsetof32 f + 4 \<le> length a \<Longrightarrow> get32 f (a @ b) = get32 f a"
  by (simp add: get32_def load32_def load_bytes_def)

lemma take_crc_put32_crc:
  "sizeof_ControlFileData \<le> length cf \<Longrightarrow>
   take (offsetof32 crc) (put32 crc v cf) = take (offsetof32 crc) cf"
  by (simp add: put32_def store32_def take_store_bytes sizeof_ControlFileData_def)

lemma drop_crc_put32_crc:
  "sizeof_ControlFileData \<le> length cf \<Longrightarrow>
   drop (offsetof32 crc + 4) (put32 crc v cf) = drop (offsetof32 crc + 4) cf"
  by (simp add: put32_def store32_def drop_store_bytes sizeof_ControlFileData_def)

lemma read_controlfile_buffer_fails:
  "\<not> fst (read_controlfile_buffer buffer s) \<longleftrightarrow>
     length buffer < sizeof_ControlFileData
   \<or> get32 pg_control_version buffer \<noteq> PG_CONTROL_VERSION
   \<or> \<not> IsValidWalSegSize (get32 xlog_seg_size buffer)"
  using offsetof32_inside [of xlog_seg_size]
  by (auto simp add: read_controlfile_buffer_def Let_def get32_take)

lemma read_controlfile_buffer_succeeds:
  assumes "sizeof_ControlFileData \<le> length buffer"
    and "get32 pg_control_version buffer = PG_CONTROL_VERSION"
    and "IsValidWalSegSize (get32 xlog_seg_size buffer)"
  shows "read_controlfile_buffer buffer s =
     (True,
      if crc32c (take (offsetof32 crc) buffer) \<noteq> get32 crc buffer
      then s\<lparr>ControlFile := take sizeof_ControlFileData buffer,
             guessed := True, warnings := warnings s @ [Invalid_CRC]\<rparr>
      else s\<lparr>ControlFile := take sizeof_ControlFileData buffer\<rparr>)"
  using assms offsetof32_inside [of xlog_seg_size]
  by (simp add: read_controlfile_buffer_def Let_def get32_take)

lemma example_record_simps [simp]:
  "length example_record = sizeof_ControlFileData"
  "get32 pg_control_version example_record = PG_CONTROL_VERSION"
  "get32 xlog_seg_size example_record = 16777216"
  by (simp_all add: example_record_def)

lemma IsValidWalSegSize_examples [simp]:
  "IsValidWalSegSize 16777216" "\<not> IsValidWalSegSize 3000000"
  by (simp_all add: IsValidWalSegSize_def IsPowerOf2_def WalSegMinSize_def WalSegMaxSize_def)

text \<open>
  C2.  Decoding (lines 378--411) fails exactly when the bytes read are fewer than
  \<open>sizeof_ControlFileData\<close>, or the version member differs from
  \<open>PG_CONTROL_VERSION\<close>, or the stored segment size is not a power of two between
  \<open>2^20\<close> (1 MiB) and \<open>2^30\<close> (1 GiB).  A checksum mismatch does not make it fail:
  when decoding succeeds, the record is the first \<open>sizeof_ControlFileData\<close> bytes of
  the input whatever the stored checksum is, and a mismatch only sets \<^verbatim>\<open>guessed\<close>
  and adds the warning \<open>Invalid_CRC\<close>.
\<close>

theorem decode_fails_exactly_when:
  "(\<not> fst (read_controlfile_buffer buffer s) \<longleftrightarrow>
       length buffer < sizeof_ControlFileData
     \<or> get32 pg_control_version buffer \<noteq> PG_CONTROL_VERSION
     \<or> \<not> (\<exists>k. 20 \<le> k \<and> k \<le> 30 \<and> get32 xlog_seg_size buffer = 2 ^ k))
 \<and> (fst (read_controlfile_buffer buffer s) \<longrightarrow>
       snd (read_controlfile_buffer buffer s) =
         (if crc32c (take (offsetof32 crc) buffer) \<noteq> get32 crc buffer
          then s\<lparr>ControlFile := take sizeof_ControlFileData buffer,
                 guessed := True, warnings := warnings s @ [Invalid_CRC]\<rparr>
          else s\<lparr>ControlFile := take sizeof_ControlFileData buffer\<rparr>))"
proof -
  have "fst (read_controlfile_buffer buffer s) \<Longrightarrow>
        snd (read_controlfile_buffer buffer s) =
         (if crc32c (take (offsetof32 crc) buffer) \<noteq> get32 crc buffer
          then s\<lparr>ControlFile := take sizeof_ControlFileData buffer,
                 guessed := True, warnings := warnings s @ [Invalid_CRC]\<rparr>
          else s\<lparr>ControlFile := take sizeof_ControlFileData buffer\<rparr>)"
    using read_controlfile_buffer_fails [of buffer s]
      read_controlfile_buffer_succeeds [of buffer s]
    by (simp add: not_less)
  then show ?thesis
    using read_controlfile_buffer_fails [of buffer s]
    by (simp only: IsValidWalSegSize_iff) blast
qed

theorem decode_fails_exactly_when_witness:
  "fst (read_controlfile_buffer example_record initial_state)
 \<and> ControlFile (snd (read_controlfile_buffer example_record initial_state)) = example_record
 \<and> \<not> fst (read_controlfile_buffer (take 100 example_record) initial_state)
 \<and> \<not> fst (read_controlfile_buffer (put32 pg_control_version 1300 example_record) initial_state)
 \<and> \<not> fst (read_controlfile_buffer (put32 xlog_seg_size 3000000 example_record) initial_state)"
proof -
  have ok: "\<exists>k. 20 \<le> k \<and> k \<le> 30 \<and> get32 xlog_seg_size example_record = 2 ^ k"
    unfolding IsValidWalSegSize_iff [symmetric] by simp
  have bad: "\<not> (\<exists>k. 20 \<le> k \<and> k \<le> 30 \<and>
                get32 xlog_seg_size (put32 xlog_seg_size 3000000 example_record) = 2 ^ k)"
    unfolding IsValidWalSegSize_iff [symmetric] by simp
  have 1: "fst (read_controlfile_buffer example_record initial_state)"
  proof -
    have "\<not> (length example_record < sizeof_ControlFileData
             \<or> get32 pg_control_version example_record \<noteq> PG_CONTROL_VERSION
             \<or> \<not> (\<exists>k. 20 \<le> k \<and> k \<le> 30 \<and> get32 xlog_seg_size example_record = 2 ^ k))"
      using ok by simp
    with decode_fails_exactly_when [of example_record initial_state] show ?thesis
      by blast
  qed
  have 2: "ControlFile (snd (read_controlfile_buffer example_record initial_state)) = example_record"
    using decode_fails_exactly_when [of example_record initial_state] 1
    by (simp split: if_splits)
  have 3: "\<not> fst (read_controlfile_buffer (take 100 example_record) initial_state)"
    using decode_fails_exactly_when [of "take 100 example_record" initial_state]
    by (simp add: sizeof_ControlFileData_def)
  have 4: "\<not> fst (read_controlfile_buffer (put32 pg_control_version 1300 example_record)
                  initial_state)"
    using decode_fails_exactly_when [of "put32 pg_control_version 1300 example_record" initial_state]
    by (simp add: PG_CONTROL_VERSION_def)
  have 5: "\<not> fst (read_controlfile_buffer (put32 xlog_seg_size 3000000 example_record)
                  initial_state)"
    using decode_fails_exactly_when [of "put32 xlog_seg_size 3000000 example_record" initial_state]
      bad
    by blast
  show ?thesis
    using 1 2 3 4 5 by simp
qed

section \<open>Encoding and decoding again\<close>

lemma take_bit_le_word:
  "take_bit (8 * length bs) (le_word bs :: 'a::len word) = le_word bs"
proof (induction bs)
  case Nil
  show ?case by simp
next
  case (Cons b bs)
  have "take_bit (8 * length (b # bs)) (ucast b OR push_bit 8 (take_bit (8 * length bs) (le_word bs :: 'a word)))
        = (ucast b OR push_bit 8 (take_bit (8 * length bs) (le_word bs)) :: 'a word)"
    by (rule bit_word_eqI) (auto simp: bit_simps dest: bit_imp_le_length)
  with Cons show ?case by simp
qed

lemma le_bytes_le_word:
  "8 * length bs \<le> LENGTH('a::len) \<Longrightarrow> le_bytes (length bs) (le_word bs :: 'a word) = bs"
proof (induction bs)
  case Nil
  show ?case by simp
next
  case (Cons b bs)
  have 1: "(ucast (ucast b OR push_bit 8 (le_word bs :: 'a word)) :: byte) = b"
    using Cons.prems by (intro bit_word_eqI) (auto simp: bit_simps)
  have "drop_bit 8 (ucast b OR push_bit 8 (take_bit (8 * length bs) (le_word bs :: 'a word)))
          = take_bit (8 * length bs) (le_word bs :: 'a word)"
    using Cons.prems
    by (intro bit_word_eqI) (auto simp: bit_simps dest: bit_imp_le_length)
  then have 2: "drop_bit 8 (ucast b OR push_bit 8 (le_word bs :: 'a word)) = le_word bs"
    by (simp add: take_bit_le_word)
  from Cons have "le_bytes (length bs) (le_word bs :: 'a word) = bs" by simp
  with 1 2 show ?case by simp
qed

lemma store_load_bytes:
  "off + n \<le> length m \<Longrightarrow> store_bytes off (load_bytes off n m) m = m"
  by (simp add: store_bytes_def load_bytes_def min_def)
     (metis add.commute append_take_drop_id drop_drop)

lemma put32_get32 [simp]:
  assumes "sizeof_ControlFileData \<le> length cf"
  shows "put32 f (get32 f cf) cf = cf"
proof -
  have len: "length (load_bytes (offsetof32 f) 4 cf) = 4"
    using assms offsetof32_inside [of f] by (simp add: load_bytes_def)
  have "le_bytes 4 (le_word (load_bytes (offsetof32 f) 4 cf) :: uint32) = load_bytes (offsetof32 f) 4 cf"
    using le_bytes_le_word [of "load_bytes (offsetof32 f) 4 cf", where 'a = 32] len by simp
  then show ?thesis
    using assms offsetof32_inside [of f] store_load_bytes [of "offsetof32 f" 4 cf]
    by (simp add: put32_def get32_def store32_def load32_def)
qed

lemma length_update_controlfile_buffer:
  "length cf = sizeof_ControlFileData \<Longrightarrow>
   length (update_controlfile_buffer cf) = PG_CONTROL_FILE_SIZE"
  by (simp add: update_controlfile_buffer_def Let_def sizeof_ControlFileData_def PG_CONTROL_FILE_SIZE_def)

lemma take_update_controlfile_buffer:
  "length cf = sizeof_ControlFileData \<Longrightarrow>
   take sizeof_ControlFileData (update_controlfile_buffer cf) =
     put32 crc (crc32c (take (offsetof32 crc) cf)) cf"
  by (simp add: update_controlfile_buffer_def Let_def)

lemma get32_update_controlfile_buffer:
  "length cf = sizeof_ControlFileData \<Longrightarrow>
   get32 f (update_controlfile_buffer cf) = get32 f (put32 crc (crc32c (take (offsetof32 crc) cf)) cf)"
  using offsetof32_inside [of f]
  by (simp add: update_controlfile_buffer_def Let_def get32_append)

lemma take_crc_update_controlfile_buffer:
  "length cf = sizeof_ControlFileData \<Longrightarrow>
   take (offsetof32 crc) (update_controlfile_buffer cf) = take (offsetof32 crc) cf"
  using take_crc_put32_crc [of cf]
  by (simp add: update_controlfile_buffer_def Let_def sizeof_ControlFileData_def)

lemma store_bytes_twice:
  "length bs = length bs' \<Longrightarrow> off + length bs \<le> length m \<Longrightarrow>
   store_bytes off bs (store_bytes off bs' m) = store_bytes off bs m"
  by (simp add: store_bytes_def)

lemma put32_put32_same [simp]:
  "sizeof_ControlFileData \<le> length cf \<Longrightarrow> put32 f v (put32 f w cf) = put32 f v cf"
  using offsetof32_inside [of f]
  by (simp add: put32_def store32_def store_bytes_twice)

lemma update_controlfile_buffer_put32_crc:
  "length cf = sizeof_ControlFileData \<Longrightarrow>
   update_controlfile_buffer (put32 crc v cf) = update_controlfile_buffer cf"
  using take_crc_put32_crc [of cf v]
  by (simp add: update_controlfile_buffer_def Let_def)

text \<open>
  C1, as the claim states it, fails, in two ways.  The first record below has a valid
  segment size and 0 as its version: decoding its encoding fails, because the version
  is checked.  The other two records have the supported version and a valid segment
  size and differ only in their \<^verbatim>\<open>crc\<close> member (0 and 1): their encodings are the
  same bytes, so what is decoded from them cannot equal both.
\<close>

theorem round_trip_changes_record:
  "length (put32 pg_control_version 0 example_record) = sizeof_ControlFileData
 \<and> IsValidWalSegSize (get32 xlog_seg_size (put32 pg_control_version 0 example_record))
 \<and> \<not> fst (read_controlfile_buffer
            (update_controlfile_buffer (put32 pg_control_version 0 example_record)) initial_state)
 \<and> \<not> (ControlFile (snd (read_controlfile_buffer
            (update_controlfile_buffer (put32 crc 0 example_record)) initial_state))
          = put32 crc 0 example_record
      \<and> ControlFile (snd (read_controlfile_buffer
            (update_controlfile_buffer (put32 crc 1 example_record)) initial_state))
          = put32 crc 1 example_record)"
proof -
  have "get32 pg_control_version
          (update_controlfile_buffer (put32 pg_control_version 0 example_record)) = 0"
    by (simp add: get32_update_controlfile_buffer)
  then have 1: "\<not> fst (read_controlfile_buffer
            (update_controlfile_buffer (put32 pg_control_version 0 example_record)) initial_state)"
    by (simp add: read_controlfile_buffer_fails PG_CONTROL_VERSION_def)
  have "put32 crc 0 example_record \<noteq> put32 crc 1 example_record"
  proof
    assume "put32 crc 0 example_record = put32 crc 1 example_record"
    then have "get32 crc (put32 crc 0 example_record) = get32 crc (put32 crc 1 example_record)"
      by simp
    then show False by simp
  qed
  then have 2: "\<not> (ControlFile (snd (read_controlfile_buffer
            (update_controlfile_buffer (put32 crc 0 example_record)) initial_state))
          = put32 crc 0 example_record
      \<and> ControlFile (snd (read_controlfile_buffer
            (update_controlfile_buffer (put32 crc 1 example_record)) initial_state))
          = put32 crc 1 example_record)"
    by (simp add: update_controlfile_buffer_put32_crc)
  show ?thesis
    using 1 2 by simp
qed

text \<open>
  C1, amended.  Take a record (a struct image) with the supported version and a segment
  size that is a power of two between \<open>2^20\<close> and \<open>2^30\<close>, its other members
  arbitrary.  Decoding the bytes produced by encoding it succeeds; the checksum of the
  encoded bytes verifies, so \<^verbatim>\<open>guessed\<close> is not set and nothing is warned about,
  whatever the record's own \<^verbatim>\<open>crc\<close> member was.  The decoded record is the
  original with its \<^verbatim>\<open>crc\<close> member replaced by the recomputed checksum: every
  other member, and every byte before and after \<^verbatim>\<open>crc\<close>, is as in the original,
  and the decoded record equals the original when the original's \<^verbatim>\<open>crc\<close> member
  already held the checksum.
\<close>

theorem encode_decode_round_trip:
  assumes "length r = sizeof_ControlFileData"
    and "get32 pg_control_version r = PG_CONTROL_VERSION"
    and "\<exists>k. 20 \<le> k \<and> k \<le> 30 \<and> get32 xlog_seg_size r = 2 ^ k"
  shows "read_controlfile_buffer (update_controlfile_buffer r) s =
           (True, s\<lparr>ControlFile := put32 crc (crc32c (take (offsetof32 crc) r)) r\<rparr>)
       \<and> crc32c (take (offsetof32 crc) (update_controlfile_buffer r))
           = get32 crc (update_controlfile_buffer r)
       \<and> (\<forall>f. f \<noteq> crc \<longrightarrow>
            get32 f (put32 crc (crc32c (take (offsetof32 crc) r)) r) = get32 f r)
       \<and> get64 nextXid (put32 crc (crc32c (take (offsetof32 crc) r)) r) = get64 nextXid r
       \<and> take (offsetof32 crc) (put32 crc (crc32c (take (offsetof32 crc) r)) r)
           = take (offsetof32 crc) r
       \<and> drop (offsetof32 crc + 4) (put32 crc (crc32c (take (offsetof32 crc) r)) r)
           = drop (offsetof32 crc + 4) r
       \<and> (get32 crc r = crc32c (take (offsetof32 crc) r) \<longrightarrow>
            put32 crc (crc32c (take (offsetof32 crc) r)) r = r)"
proof -
  let ?r' = "put32 crc (crc32c (take (offsetof32 crc) r)) r"
  have valid: "IsValidWalSegSize (get32 xlog_seg_size r)"
    using assms(3) by (simp only: IsValidWalSegSize_iff)
  have img: "sizeof_ControlFileData \<le> length r"
    using assms(1) by simp
  have crc_ok: "crc32c (take (offsetof32 crc) (update_controlfile_buffer r))
                 = get32 crc (update_controlfile_buffer r)"
    using assms(1) img
    by (simp add: get32_update_controlfile_buffer
        take_crc_update_controlfile_buffer [simplified])
  have long: "sizeof_ControlFileData \<le> length (update_controlfile_buffer r)"
    using assms(1)
    by (simp add: length_update_controlfile_buffer PG_CONTROL_FILE_SIZE_def
        sizeof_ControlFileData_def)
  have members: "get32 pg_control_version (update_controlfile_buffer r) = PG_CONTROL_VERSION"
      "IsValidWalSegSize (get32 xlog_seg_size (update_controlfile_buffer r))"
    using assms(1,2) valid img by (simp_all add: get32_update_controlfile_buffer)
  have "read_controlfile_buffer (update_controlfile_buffer r) s = (True, s\<lparr>ControlFile := ?r'\<rparr>)"
    using read_controlfile_buffer_succeeds [OF long members, of s] crc_ok assms(1)
    by (simp add: take_update_controlfile_buffer)
  moreover have "get32 crc r = crc32c (take (offsetof32 crc) r) \<Longrightarrow> ?r' = r"
    using put32_get32 [OF img, of crc] by simp
  ultimately show ?thesis
    using crc_ok img take_crc_put32_crc [OF img] drop_crc_put32_crc [OF img]
    by simp
qed

theorem encode_decode_round_trip_witness:
  "read_controlfile_buffer (update_controlfile_buffer example_record) initial_state =
     (True, initial_state\<lparr>ControlFile :=
        put32 crc (crc32c (take (offsetof32 crc) example_record)) example_record\<rparr>)
 \<and> crc32c (take (offsetof32 crc) (update_controlfile_buffer example_record))
     = get32 crc (update_controlfile_buffer example_record)
 \<and> get32 xlog_seg_size (put32 crc (crc32c (take (offsetof32 crc) example_record)) example_record)
     = 16777216
 \<and> get64 nextXid (put32 crc (crc32c (take (offsetof32 crc) example_record)) example_record)
     = get64 nextXid example_record"
proof -
  have "\<exists>k. 20 \<le> k \<and> k \<le> 30 \<and> get32 xlog_seg_size example_record = 2 ^ k"
    unfolding IsValidWalSegSize_iff [symmetric] by simp
  then show ?thesis
    using encode_decode_round_trip [of example_record initial_state]
    by simp
qed

section \<open>Writing the record file\<close>

lemma snprintf_short: "length str \<le> n - 2 \<Longrightarrow> snprintf (n - 1) str = str"
  by (simp add: snprintf_def)

lemma make_datadir_out_keeps_record_file:
  assumes "length (pgdata_out @ ''/'' @ XLOG_CONTROL_FILE) \<le> PG_CONTROL_FILE_PATH_SIZE - 2"
    and "make_datadir_out_if_not_exists pgdata_out fsys = (None, fs1)"
  shows "nodes fs1 (pgdata_out @ ''/'' @ XLOG_CONTROL_FILE) =
          (case nodes fsys (pgdata_out @ ''/'' @ XLOG_CONTROL_FILE) of
             None \<Rightarrow> Some (File [])
           | Some n \<Rightarrow> Some n)"
proof -
  let ?path = "pgdata_out @ ''/'' @ XLOG_CONTROL_FILE"
  have p1: "snprintf (PG_CONTROL_FILE_PATH_SIZE - 1) ?path = ?path"
    using assms(1) by (rule snprintf_short)
  have p2: "snprintf (PG_CONTROL_FILE_PATH_SIZE - 1) (pgdata_out @ ''/global'') = pgdata_out @ ''/global''"
    using assms(1) by (intro snprintf_short) (simp add: XLOG_CONTROL_FILE_def)
  have ne: "pgdata_out \<noteq> ?path" "pgdata_out @ ''/global'' \<noteq> ?path"
    by (simp_all add: XLOG_CONTROL_FILE_def)
  from assms(2) show ?thesis
    unfolding make_datadir_out_if_not_exists_def p1 p2
    using ne
    by (auto simp add: Let_def mkdir_def open_excl_creat_def
        split: if_splits option.splits)
qed


lemma make_datadir_out_all_exist:
  assumes "length (pgdata_out @ ''/'' @ XLOG_CONTROL_FILE) \<le> PG_CONTROL_FILE_PATH_SIZE - 2"
    and "nodes fsys pgdata_out \<noteq> None"
    and "nodes fsys (pgdata_out @ ''/global'') \<noteq> None"
    and "nodes fsys (pgdata_out @ ''/'' @ XLOG_CONTROL_FILE) \<noteq> None"
  shows "make_datadir_out_if_not_exists pgdata_out fsys = (None, fsys)"
proof -
  let ?path = "pgdata_out @ ''/'' @ XLOG_CONTROL_FILE"
  have p1: "snprintf (PG_CONTROL_FILE_PATH_SIZE - 1) ?path = ?path"
    using assms(1) by (rule snprintf_short)
  have p2: "snprintf (PG_CONTROL_FILE_PATH_SIZE - 1) (pgdata_out @ ''/global'') = pgdata_out @ ''/global''"
    using assms(1) by (intro snprintf_short) (simp add: XLOG_CONTROL_FILE_def)
  show ?thesis
    unfolding make_datadir_out_if_not_exists_def p1 p2
    using assms(2-4)
    by (auto simp add: Let_def mkdir_def open_excl_creat_def)
qed

lemma length_example_payload:
  "length (update_controlfile_buffer example_record) = 8192"
  using length_update_controlfile_buffer [of example_record]
  by (simp add: PG_CONTROL_FILE_SIZE_def)

text \<open>
  C5, as the claim states it, fails.  In the file system below a record file with the
  content \<open>[1, 2, 3]\<close> exists at the output path.  Writing the result reports no
  error, and afterwards the file holds the encoded record: the exclusive creation at
  line 440 fails with \<^verbatim>\<open>EEXIST\<close>, which line 441 lets pass, and the payload is
  then written into the file that was there.
\<close>

theorem existing_record_file_is_overwritten:
  "nodes fs_with_record_file ''out/global/pg_control'' = Some (File [1, 2, 3])
 \<and> fst (materialize ''out'' example_record fs_with_record_file) = None
 \<and> nodes (snd (materialize ''out'' example_record fs_with_record_file)) ''out/global/pg_control''
     = Some (File (update_controlfile_buffer example_record))
 \<and> update_controlfile_buffer example_record \<noteq> [1, 2, 3]"
proof -
  have 1: "make_datadir_out_if_not_exists ''out'' fs_with_record_file = (None, fs_with_record_file)"
    by (rule make_datadir_out_all_exist)
       (simp_all add: fs_with_record_file_def XLOG_CONTROL_FILE_def PG_CONTROL_FILE_PATH_SIZE_def)
  have 2: "update_controlfile_buffer example_record \<noteq> [1, 2, 3]"
    using length_example_payload by auto
  have 3: "materialize ''out'' example_record fs_with_record_file =
             update_controlfile ''out'' example_record fs_with_record_file"
    by (simp add: materialize_def 1)
  have 4: "update_controlfile ''out'' example_record fs_with_record_file =
     (None, fs_with_record_file\<lparr>nodes := (nodes fs_with_record_file)(''out/global/pg_control'' \<mapsto>
        File (update_controlfile_buffer example_record))\<rparr>)"
    by (simp add: update_controlfile_def Let_def XLOG_CONTROL_FILE_def
        fs_with_record_file_def length_example_payload)
  have 5: "nodes fs_with_record_file ''out/global/pg_control'' = Some (File [1, 2, 3])"
    by (simp add: fs_with_record_file_def)
  show ?thesis
    using 2 5 by (simp add: 3 4)
qed

text \<open>
  C5, amended.  The output path being short enough for \<^verbatim>\<open>snprintf\<close> not to cut
  it: whenever writing the result succeeds, the record file holds the encoded record,
  written once at its start, followed by whatever an earlier file at that path held
  beyond the length of the payload (nothing, when the file was created by this run with
  \<^verbatim>\<open>O_EXCL | O_CREAT\<close>).  And when the two directories and a record file with
  content \<open>old\<close> exist already, writing the result succeeds without any error and
  replaces the first bytes of \<open>old\<close> by the payload, changing nothing else in the
  file system.
\<close>

theorem materialize_writes_over_record_file:
  assumes "length (pgdata_out @ ''/'' @ XLOG_CONTROL_FILE) \<le> PG_CONTROL_FILE_PATH_SIZE - 2"
  shows "(materialize pgdata_out cf fsys = (None, fs') \<longrightarrow>
            nodes fs' (pgdata_out @ ''/'' @ XLOG_CONTROL_FILE) =
              Some (File (update_controlfile_buffer cf @
                          drop (length (update_controlfile_buffer cf))
                            (case nodes fsys (pgdata_out @ ''/'' @ XLOG_CONTROL_FILE) of
                               Some (File old) \<Rightarrow> old | _ \<Rightarrow> []))))
       \<and> (nodes fsys pgdata_out \<noteq> None \<and> nodes fsys (pgdata_out @ ''/global'') \<noteq> None \<and>
          nodes fsys (pgdata_out @ ''/'' @ XLOG_CONTROL_FILE) = Some (File old) \<longrightarrow>
            materialize pgdata_out cf fsys =
              (None, fsys\<lparr>nodes := (nodes fsys)(pgdata_out @ ''/'' @ XLOG_CONTROL_FILE \<mapsto>
                 File (update_controlfile_buffer cf @
                       drop (length (update_controlfile_buffer cf)) old))\<rparr>))"
proof (intro conjI impI)
  assume m: "materialize pgdata_out cf fsys = (None, fs')"
  obtain e1 fs1 where d: "make_datadir_out_if_not_exists pgdata_out fsys = (e1, fs1)"
    by (cases "make_datadir_out_if_not_exists pgdata_out fsys")
  with m have e1: "e1 = None" and u: "update_controlfile pgdata_out cf fs1 = (None, fs')"
    by (auto simp: materialize_def split: if_splits)
  from make_datadir_out_keeps_record_file [OF assms] d e1
  have "nodes fs1 (pgdata_out @ ''/'' @ XLOG_CONTROL_FILE) =
          (case nodes fsys (pgdata_out @ ''/'' @ XLOG_CONTROL_FILE) of
             None \<Rightarrow> Some (File [])
           | Some n \<Rightarrow> Some n)"
    by simp
  with u show "nodes fs' (pgdata_out @ ''/'' @ XLOG_CONTROL_FILE) =
              Some (File (update_controlfile_buffer cf @
                          drop (length (update_controlfile_buffer cf))
                            (case nodes fsys (pgdata_out @ ''/'' @ XLOG_CONTROL_FILE) of
                               Some (File old) \<Rightarrow> old | _ \<Rightarrow> [])))"
    by (auto simp: update_controlfile_def Let_def split: option.splits node.splits)
next
  assume "nodes fsys pgdata_out \<noteq> None \<and> nodes fsys (pgdata_out @ ''/global'') \<noteq> None \<and>
          nodes fsys (pgdata_out @ ''/'' @ XLOG_CONTROL_FILE) = Some (File old)"
  then show "materialize pgdata_out cf fsys =
              (None, fsys\<lparr>nodes := (nodes fsys)(pgdata_out @ ''/'' @ XLOG_CONTROL_FILE \<mapsto>
                 File (update_controlfile_buffer cf @
                       drop (length (update_controlfile_buffer cf)) old))\<rparr>)"
    using make_datadir_out_all_exist [OF assms, of fsys]
    by (simp add: materialize_def update_controlfile_def Let_def)
qed

theorem materialize_writes_over_record_file_witness:
  "materialize ''out'' example_record fs_with_record_file =
     (None, fs_with_record_file\<lparr>nodes := (nodes fs_with_record_file)(''out/global/pg_control'' \<mapsto>
        File (update_controlfile_buffer example_record))\<rparr>)
 \<and> nodes (snd (materialize ''out'' example_record empty_fs)) ''out/global/pg_control''
     = Some (File (update_controlfile_buffer example_record))"
proof -
  have short: "length (''out'' @ ''/'' @ XLOG_CONTROL_FILE) \<le> PG_CONTROL_FILE_PATH_SIZE - 2"
    by (simp add: XLOG_CONTROL_FILE_def PG_CONTROL_FILE_PATH_SIZE_def)
  have 1: "materialize ''out'' example_record fs_with_record_file =
     (None, fs_with_record_file\<lparr>nodes := (nodes fs_with_record_file)(''out/global/pg_control'' \<mapsto>
        File (update_controlfile_buffer example_record))\<rparr>)"
    using materialize_writes_over_record_file
      [OF short, of example_record fs_with_record_file _ "[1, 2, 3]"]
    by (simp add: fs_with_record_file_def XLOG_CONTROL_FILE_def length_example_payload)
  obtain e fs' where m: "materialize ''out'' example_record empty_fs = (e, fs')"
    by (cases "materialize ''out'' example_record empty_fs")
  have e: "e = None"
    using m
    by (simp add: materialize_def make_datadir_out_if_not_exists_def mkdir_def
        open_excl_creat_def update_controlfile_def Let_def empty_fs_def snprintf_def
        XLOG_CONTROL_FILE_def PG_CONTROL_FILE_PATH_SIZE_def)
  have 2: "nodes (snd (materialize ''out'' example_record empty_fs)) ''out/global/pg_control''
     = Some (File (update_controlfile_buffer example_record))"
    using materialize_writes_over_record_file
      [OF short, of example_record empty_fs fs' "[]"] m e
    by (simp add: empty_fs_def XLOG_CONTROL_FILE_def)
  show ?thesis using 1 2 by simp
qed

section \<open>The stored checksum and the result\<close>

lemma store_bytes_commute:
  assumes "off1 + length bs1 \<le> off2" and "off2 + length bs2 \<le> length m"
    and "0 < length bs1"
  shows "store_bytes off1 bs1 (store_bytes off2 bs2 m) = store_bytes off2 bs2 (store_bytes off1 bs1 m)"
proof -
  have lt: "off1 < off2" "off1 < length m"
    using assms by arith+
  have "store_bytes off1 bs1 (store_bytes off2 bs2 m)
        = take off1 m @ bs1 @ drop (off1 + length bs1) (take off2 m) @ bs2 @ drop (off2 + length bs2) m"
    using assms by (simp add: store_bytes_def)
  moreover have "store_bytes off2 bs2 (store_bytes off1 bs1 m)
        = take off1 m @ bs1 @ take (off2 - (off1 + length bs1)) (drop (off1 + length bs1) m) @ bs2 @ drop (off2 + length bs2) m"
    using assms(1,2) lt by (auto simp add: store_bytes_def min_def)
  ultimately show ?thesis
    by (simp add: drop_take)
qed

lemma put32_put32_crc:
  "f \<noteq> crc \<Longrightarrow> sizeof_ControlFileData \<le> length cf \<Longrightarrow>
   put32 f x (put32 crc v cf) = put32 crc v (put32 f x cf)"
  using offsetof32_before_crc [of f]
    store_bytes_commute [of "offsetof32 f" "le_bytes 4 x" "offsetof32 crc" "le_bytes 4 v" cf]
  by (simp add: put32_def store32_def sizeof_ControlFileData_def)

lemma put64_put32_crc:
  "sizeof_ControlFileData \<le> length cf \<Longrightarrow>
   put64 g x (put32 crc v cf) = put32 crc v (put64 g x cf)"
  using store_bytes_commute [of "offsetof64 g" "le_bytes 8 x" "offsetof32 crc" "le_bytes 4 v" cf]
  by (cases g) (simp add: put64_def put32_def store32_def store64_def sizeof_ControlFileData_def)


lemma step_put32_crc:
  assumes "sizeof_ControlFileData \<le> length (ControlFile s)"
  shows "choose_WalSegSz (s\<lparr>ControlFile := put32 crc v (ControlFile s), guessed := g, warnings := w\<rparr>)
           = (choose_WalSegSz s)\<lparr>ControlFile := put32 crc v (ControlFile (choose_WalSegSz s)), guessed := g, warnings := w\<rparr>"
    and "resolve_log_fname (s\<lparr>ControlFile := put32 crc v (ControlFile s), guessed := g, warnings := w\<rparr>)
           = (resolve_log_fname s)\<lparr>ControlFile := put32 crc v (ControlFile (resolve_log_fname s)), guessed := g, warnings := w\<rparr>"
    and "apply_set_oid (s\<lparr>ControlFile := put32 crc v (ControlFile s), guessed := g, warnings := w\<rparr>)
           = (apply_set_oid s)\<lparr>ControlFile := put32 crc v (ControlFile (apply_set_oid s)), guessed := g, warnings := w\<rparr>"
    and "apply_set_xid (s\<lparr>ControlFile := put32 crc v (ControlFile s), guessed := g, warnings := w\<rparr>)
           = (apply_set_xid s)\<lparr>ControlFile := put32 crc v (ControlFile (apply_set_xid s)), guessed := g, warnings := w\<rparr>"
    and "apply_set_mxid (s\<lparr>ControlFile := put32 crc v (ControlFile s), guessed := g, warnings := w\<rparr>)
           = (apply_set_mxid s)\<lparr>ControlFile := put32 crc v (ControlFile (apply_set_mxid s)), guessed := g, warnings := w\<rparr>"
    and "apply_set_mxoff (s\<lparr>ControlFile := put32 crc v (ControlFile s), guessed := g, warnings := w\<rparr>)
           = (apply_set_mxoff s)\<lparr>ControlFile := put32 crc v (ControlFile (apply_set_mxoff s)), guessed := g, warnings := w\<rparr>"
    and "apply_minXlogTli (s\<lparr>ControlFile := put32 crc v (ControlFile s), guessed := g, warnings := w\<rparr>)
           = (apply_minXlogTli s)\<lparr>ControlFile := put32 crc v (ControlFile (apply_minXlogTli s)), guessed := g, warnings := w\<rparr>"
    and "apply_set_oldest_commit_ts_xid (s\<lparr>ControlFile := put32 crc v (ControlFile s), guessed := g, warnings := w\<rparr>)
           = (apply_set_oldest_commit_ts_xid s)\<lparr>ControlFile := put32 crc v (ControlFile (apply_set_oldest_commit_ts_xid s)), guessed := g, warnings := w\<rparr>"
    and "apply_set_newest_commit_ts_xid (s\<lparr>ControlFile := put32 crc v (ControlFile s), guessed := g, warnings := w\<rparr>)
           = (apply_set_newest_commit_ts_xid s)\<lparr>ControlFile := put32 crc v (ControlFile (apply_set_newest_commit_ts_xid s)), guessed := g, warnings := w\<rparr>"
    and "apply_set_xid_epoch (s\<lparr>ControlFile := put32 crc v (ControlFile s), guessed := g, warnings := w\<rparr>)
           = (apply_set_xid_epoch s)\<lparr>ControlFile := put32 crc v (ControlFile (apply_set_xid_epoch s)), guessed := g, warnings := w\<rparr>"
    and "apply_set_oldest_xid (s\<lparr>ControlFile := put32 crc v (ControlFile s), guessed := g, warnings := w\<rparr>)
           = (apply_set_oldest_xid s)\<lparr>ControlFile := put32 crc v (ControlFile (apply_set_oldest_xid s)), guessed := g, warnings := w\<rparr>"
    and "apply_set_wal_segsize (s\<lparr>ControlFile := put32 crc v (ControlFile s), guessed := g, warnings := w\<rparr>)
           = (apply_set_wal_segsize s)\<lparr>ControlFile := put32 crc v (ControlFile (apply_set_wal_segsize s)), guessed := g, warnings := w\<rparr>"
  using assms
  by (simp_all add: step_defs Let_def put32_put32_crc put64_put32_crc split: option.split prod.split)

lemma apply_overrides_put32_crc:
  assumes "sizeof_ControlFileData \<le> length (ControlFile s)"
  shows "apply_overrides (s\<lparr>ControlFile := put32 crc v (ControlFile s), guessed := g, warnings := w\<rparr>)
           = (apply_overrides s)\<lparr>ControlFile := put32 crc v (ControlFile (apply_overrides s)),
                                  guessed := g, warnings := w\<rparr>"
  using assms
  by (simp add: apply_overrides_def step_put32_crc)


lemma differ_only_in_crc:
  assumes "length b1 = length b2"
    and "take (offsetof32 crc) b1 = take (offsetof32 crc) b2"
    and "drop (offsetof32 crc + 4) b1 = drop (offsetof32 crc + 4) b2"
    and "sizeof_ControlFileData \<le> length b1"
  shows "b2 = put32 crc (get32 crc b2) b1"
proof -
  have "b2 = put32 crc (get32 crc b2) b2"
    using assms(1,4) by simp
  also have "\<dots> = put32 crc (get32 crc b2) b1"
    using assms(2,3) by (simp add: put32_def store32_def store_bytes_def)
  finally show ?thesis .
qed

lemma take_put32:
  "sizeof_ControlFileData \<le> n \<Longrightarrow> sizeof_ControlFileData \<le> length b \<Longrightarrow>
   take n (put32 f v b) = put32 f v (take n b)"
  using offsetof32_inside [of f]
  by (simp add: put32_def store32_def store_bytes_def min_def drop_take)

lemma read_controlfile_buffer_crc:
  assumes "sizeof_ControlFileData \<le> length b"
  shows "fst (read_controlfile_buffer (put32 crc v b) s) = fst (read_controlfile_buffer b s)"
    and "fst (read_controlfile_buffer b s) \<Longrightarrow>
         snd (read_controlfile_buffer (put32 crc v b) s) =
           (snd (read_controlfile_buffer b s))
             \<lparr>ControlFile := put32 crc v (ControlFile (snd (read_controlfile_buffer b s))),
              guessed := guessed (snd (read_controlfile_buffer (put32 crc v b) s)),
              warnings := warnings (snd (read_controlfile_buffer (put32 crc v b) s))\<rparr>"
    and "fst (read_controlfile_buffer b s) \<Longrightarrow>
         length (ControlFile (snd (read_controlfile_buffer b s))) = sizeof_ControlFileData"
proof -
  show 1: "fst (read_controlfile_buffer (put32 crc v b) s) = fst (read_controlfile_buffer b s)"
    using assms read_controlfile_buffer_fails [of b s]
      read_controlfile_buffer_fails [of "put32 crc v b" s]
    by auto
  assume ok: "fst (read_controlfile_buffer b s)"
  then have b: "get32 pg_control_version b = PG_CONTROL_VERSION"
      "IsValidWalSegSize (get32 xlog_seg_size b)"
    using read_controlfile_buffer_fails [of b s] by auto
  have b': "sizeof_ControlFileData \<le> length (put32 crc v b)"
      "get32 pg_control_version (put32 crc v b) = PG_CONTROL_VERSION"
      "IsValidWalSegSize (get32 xlog_seg_size (put32 crc v b))"
    using assms b by simp_all
  show "snd (read_controlfile_buffer (put32 crc v b) s) =
           (snd (read_controlfile_buffer b s))
             \<lparr>ControlFile := put32 crc v (ControlFile (snd (read_controlfile_buffer b s))),
              guessed := guessed (snd (read_controlfile_buffer (put32 crc v b) s)),
              warnings := warnings (snd (read_controlfile_buffer (put32 crc v b) s))\<rparr>"
    unfolding read_controlfile_buffer_succeeds [OF assms b]
      read_controlfile_buffer_succeeds [OF b']
    using assms by (simp add: take_put32)
  show "length (ControlFile (snd (read_controlfile_buffer b s))) = sizeof_ControlFileData"
    unfolding read_controlfile_buffer_succeeds [OF assms b]
    using assms by simp
qed


lemma mkdir_other_file:
  assumes "nodes fsys q = Some (File b1)"
  shows "mkdir p (fsys\<lparr>nodes := (nodes fsys)(q \<mapsto> File b2)\<rparr>) =
           (fst (mkdir p fsys),
            (snd (mkdir p fsys))\<lparr>nodes := (nodes (snd (mkdir p fsys)))(q \<mapsto> File b2)\<rparr>)"
    and "nodes (snd (mkdir p fsys)) q = Some (File b1)"
  using assms by (auto simp add: mkdir_def fun_upd_twist)

lemma open_excl_creat_other_file:
  assumes "nodes fsys q = Some (File b1)"
  shows "open_excl_creat p (fsys\<lparr>nodes := (nodes fsys)(q \<mapsto> File b2)\<rparr>) =
           (fst (open_excl_creat p fsys),
            (snd (open_excl_creat p fsys))
              \<lparr>nodes := (nodes (snd (open_excl_creat p fsys)))(q \<mapsto> File b2)\<rparr>)"
    and "nodes (snd (open_excl_creat p fsys)) q = Some (File b1)"
  using assms by (auto simp add: open_excl_creat_def fun_upd_twist)

lemma make_datadir_out_other_file:
  assumes "nodes fsys q = Some (File b1)"
  shows "make_datadir_out_if_not_exists d (fsys\<lparr>nodes := (nodes fsys)(q \<mapsto> File b2)\<rparr>) =
           (fst (make_datadir_out_if_not_exists d fsys),
            (snd (make_datadir_out_if_not_exists d fsys))
              \<lparr>nodes := (nodes (snd (make_datadir_out_if_not_exists d fsys)))(q \<mapsto> File b2)\<rparr>)"
    and "nodes (snd (make_datadir_out_if_not_exists d fsys)) q = Some (File b1)"
proof -
  define g where "g = snprintf (PG_CONTROL_FILE_PATH_SIZE - 1) (d @ ''/global'')"
  define c where "c = snprintf (PG_CONTROL_FILE_PATH_SIZE - 1) (d @ ''/'' @ XLOG_CONTROL_FILE)"
  let ?fs1 = "snd (mkdir d fsys)"
  let ?fs2 = "snd (mkdir g ?fs1)"
  have q1: "nodes ?fs1 q = Some (File b1)"
    using assms by (rule mkdir_other_file(2))
  have q2: "nodes ?fs2 q = Some (File b1)"
    using q1 by (rule mkdir_other_file(2))
  have q3: "nodes (snd (open_excl_creat c ?fs2)) q = Some (File b1)"
    using q2 by (rule open_excl_creat_other_file(2))
  show "make_datadir_out_if_not_exists d (fsys\<lparr>nodes := (nodes fsys)(q \<mapsto> File b2)\<rparr>) =
           (fst (make_datadir_out_if_not_exists d fsys),
            (snd (make_datadir_out_if_not_exists d fsys))
              \<lparr>nodes := (nodes (snd (make_datadir_out_if_not_exists d fsys)))(q \<mapsto> File b2)\<rparr>)"
    unfolding make_datadir_out_if_not_exists_def g_def [symmetric] c_def [symmetric]
    by (simp add: Let_def split_beta
        mkdir_other_file(1) [OF assms] mkdir_other_file(1) [OF q1]
        open_excl_creat_other_file(1) [OF q2])
  show "nodes (snd (make_datadir_out_if_not_exists d fsys)) q = Some (File b1)"
    unfolding make_datadir_out_if_not_exists_def g_def [symmetric] c_def [symmetric]
    using q1 q2 q3
    by (simp add: Let_def split_beta)
qed

lemma update_controlfile_other_file:
  assumes "nodes fsys q = Some (File b1)"
    and "drop (length (update_controlfile_buffer cf)) b1 = drop (length (update_controlfile_buffer cf)) b2"
  shows "fst (update_controlfile d cf (fsys\<lparr>nodes := (nodes fsys)(q \<mapsto> File b2)\<rparr>))
           = fst (update_controlfile d cf fsys)"
    and "p \<noteq> q \<Longrightarrow>
         nodes (snd (update_controlfile d cf (fsys\<lparr>nodes := (nodes fsys)(q \<mapsto> File b2)\<rparr>))) p
           = nodes (snd (update_controlfile d cf fsys)) p"
    and "fst (update_controlfile d cf fsys) = None \<Longrightarrow>
         nodes (snd (update_controlfile d cf (fsys\<lparr>nodes := (nodes fsys)(q \<mapsto> File b2)\<rparr>)))
               (d @ ''/'' @ XLOG_CONTROL_FILE)
           = nodes (snd (update_controlfile d cf fsys)) (d @ ''/'' @ XLOG_CONTROL_FILE)"
  using assms
  by (auto simp add: update_controlfile_def Let_def split: option.splits node.splits)

lemma materialize_other_file:
  assumes "nodes fsys q = Some (File b1)"
    and "drop (length (update_controlfile_buffer cf)) b1 = drop (length (update_controlfile_buffer cf)) b2"
  shows "fst (materialize d cf (fsys\<lparr>nodes := (nodes fsys)(q \<mapsto> File b2)\<rparr>))
           = fst (materialize d cf fsys)"
    and "p \<noteq> q \<Longrightarrow>
         nodes (snd (materialize d cf (fsys\<lparr>nodes := (nodes fsys)(q \<mapsto> File b2)\<rparr>))) p
           = nodes (snd (materialize d cf fsys)) p"
    and "fst (materialize d cf fsys) = None \<Longrightarrow>
         nodes (snd (materialize d cf (fsys\<lparr>nodes := (nodes fsys)(q \<mapsto> File b2)\<rparr>)))
               (d @ ''/'' @ XLOG_CONTROL_FILE)
           = nodes (snd (materialize d cf fsys)) (d @ ''/'' @ XLOG_CONTROL_FILE)"
proof -
  let ?fs1 = "snd (make_datadir_out_if_not_exists d fsys)"
  have q1: "nodes ?fs1 q = Some (File b1)"
    using assms(1) by (rule make_datadir_out_other_file(2))
  note u = update_controlfile_other_file [OF q1 assms(2), where d = d]
  note m = make_datadir_out_other_file(1) [OF assms(1), where d = d and ?b2.0 = b2]
  show "fst (materialize d cf (fsys\<lparr>nodes := (nodes fsys)(q \<mapsto> File b2)\<rparr>))
           = fst (materialize d cf fsys)"
    using u(1) by (simp add: materialize_def m split_beta)
  show "p \<noteq> q \<Longrightarrow>
         nodes (snd (materialize d cf (fsys\<lparr>nodes := (nodes fsys)(q \<mapsto> File b2)\<rparr>))) p
           = nodes (snd (materialize d cf fsys)) p"
    using u(2) [where p = p] by (simp add: materialize_def m split_beta)
  show "fst (materialize d cf fsys) = None \<Longrightarrow>
         nodes (snd (materialize d cf (fsys\<lparr>nodes := (nodes fsys)(q \<mapsto> File b2)\<rparr>)))
               (d @ ''/'' @ XLOG_CONTROL_FILE)
           = nodes (snd (materialize d cf fsys)) (d @ ''/'' @ XLOG_CONTROL_FILE)"
    using u(3) by (auto simp add: materialize_def m split_beta split: if_splits)
qed


lemma step_keeps_log:
  "warnings (choose_WalSegSz s) = warnings s \<and> DataDirOut (choose_WalSegSz s) = DataDirOut s"
  "warnings (resolve_log_fname s) = warnings s \<and> DataDirOut (resolve_log_fname s) = DataDirOut s"
  "warnings (apply_set_oid s) = warnings s \<and> DataDirOut (apply_set_oid s) = DataDirOut s"
  "warnings (apply_set_xid s) = warnings s \<and> DataDirOut (apply_set_xid s) = DataDirOut s"
  "warnings (apply_set_mxid s) = warnings s \<and> DataDirOut (apply_set_mxid s) = DataDirOut s"
  "warnings (apply_set_mxoff s) = warnings s \<and> DataDirOut (apply_set_mxoff s) = DataDirOut s"
  "warnings (apply_minXlogTli s) = warnings s \<and> DataDirOut (apply_minXlogTli s) = DataDirOut s"
  "warnings (apply_set_oldest_commit_ts_xid s) = warnings s \<and>
     DataDirOut (apply_set_oldest_commit_ts_xid s) = DataDirOut s"
  "warnings (apply_set_newest_commit_ts_xid s) = warnings s \<and>
     DataDirOut (apply_set_newest_commit_ts_xid s) = DataDirOut s"
  "warnings (apply_set_xid_epoch s) = warnings s \<and> DataDirOut (apply_set_xid_epoch s) = DataDirOut s"
  "warnings (apply_set_oldest_xid s) = warnings s \<and> DataDirOut (apply_set_oldest_xid s) = DataDirOut s"
  "warnings (apply_set_wal_segsize s) = warnings s \<and> DataDirOut (apply_set_wal_segsize s) = DataDirOut s"
  by (simp_all add: step_defs Let_def split: option.split prod.split)

lemma apply_overrides_keeps_log:
  "warnings (apply_overrides s) = warnings s" "DataDirOut (apply_overrides s) = DataDirOut s"
  by (simp_all add: apply_overrides_def step_keeps_log)

lemma read_controlfile_buffer_keeps:
  "DataDirOut (snd (read_controlfile_buffer b s)) = DataDirOut s"
  by (simp add: read_controlfile_buffer_def Let_def)

lemma read_controlfile_buffer_warnings_crc:
  assumes "sizeof_ControlFileData \<le> length b"
  shows "removeAll Invalid_CRC (warnings (snd (read_controlfile_buffer (put32 crc v b) s)))
       = removeAll Invalid_CRC (warnings (snd (read_controlfile_buffer b s)))"
  using assms offsetof32_inside [of xlog_seg_size] offsetof32_inside [of pg_control_version]
  by (simp add: read_controlfile_buffer_def Let_def get32_take)

lemma materialize_put32_crc:
  "length cf = sizeof_ControlFileData \<Longrightarrow>
   materialize d (put32 crc v cf) fsys = materialize d cf fsys"
  by (simp add: materialize_def update_controlfile_def update_controlfile_buffer_put32_crc
      split_beta)


lemma drop_payload:
  assumes "drop (offsetof32 crc + 4) b2 = drop (offsetof32 crc + 4) b1"
    and "length cf = sizeof_ControlFileData"
  shows "drop (length (update_controlfile_buffer cf)) b1 = drop (length (update_controlfile_buffer cf)) b2"
proof -
  have "drop (PG_CONTROL_FILE_SIZE - (offsetof32 crc + 4)) (drop (offsetof32 crc + 4) b1)
      = drop (PG_CONTROL_FILE_SIZE - (offsetof32 crc + 4)) (drop (offsetof32 crc + 4) b2)"
    using assms(1) by simp
  then show ?thesis
    using assms(2) by (simp add: length_update_controlfile_buffer PG_CONTROL_FILE_SIZE_def)
qed

lemma read_controlfile_Inr:
  assumes "read_controlfile din fsys s = Inr (ok, t)"
  shows "DataDirOut t = DataDirOut s"
    and "ok \<Longrightarrow> length (ControlFile t) = sizeof_ControlFileData"
proof -
  define inpath where
    "inpath = snprintf (PG_CONTROL_FILE_PATH_SIZE - 1) (din @ ''/'' @ XLOG_CONTROL_FILE)"
  from assms obtain content where
    t: "read_controlfile_buffer (take PG_CONTROL_FILE_SIZE content) s = (ok, t)"
    unfolding read_controlfile_def inpath_def [symmetric]
    by (auto simp add: Let_def split: option.splits node.splits)
  show "DataDirOut t = DataDirOut s"
    using read_controlfile_buffer_keeps [of "take PG_CONTROL_FILE_SIZE content" s] t by simp
  assume ok
  then have "fst (read_controlfile_buffer (take PG_CONTROL_FILE_SIZE content) s)"
    using t by simp
  then have "sizeof_ControlFileData \<le> length (take PG_CONTROL_FILE_SIZE content)"
    using read_controlfile_buffer_fails [of "take PG_CONTROL_FILE_SIZE content" s]
    by (auto simp: not_less)
  from read_controlfile_buffer_crc(3) [OF this, of s] \<open>ok\<close> t
  show "length (ControlFile t) = sizeof_ControlFileData" by simp
qed

lemma read_controlfile_other_file:
  assumes "nodes fsys q = Some (File b1)"
    and "length b2 = length b1"
    and "take (offsetof32 crc) b2 = take (offsetof32 crc) b1"
    and "drop (offsetof32 crc + 4) b2 = drop (offsetof32 crc + 4) b1"
  shows "(\<exists>e. read_controlfile din fsys s = Inl e
            \<and> read_controlfile din (fsys\<lparr>nodes := (nodes fsys)(q \<mapsto> File b2)\<rparr>) s = Inl e)
       \<or> (\<exists>ok t1 t2.
             read_controlfile din fsys s = Inr (ok, t1)
           \<and> read_controlfile din (fsys\<lparr>nodes := (nodes fsys)(q \<mapsto> File b2)\<rparr>) s = Inr (ok, t2)
           \<and> DataDirOut t1 = DataDirOut s \<and> DataDirOut t2 = DataDirOut s
           \<and> removeAll Invalid_CRC (warnings t2) = removeAll Invalid_CRC (warnings t1)
           \<and> (ok \<longrightarrow> length (ControlFile t1) = sizeof_ControlFileData
                  \<and> (\<exists>v. t2 = t1\<lparr>ControlFile := put32 crc v (ControlFile t1),
                                  guessed := guessed t2, warnings := warnings t2\<rparr>)))"
proof -
  define inpath where
    "inpath = snprintf (PG_CONTROL_FILE_PATH_SIZE - 1) (din @ ''/'' @ XLOG_CONTROL_FILE)"
  let ?fs2 = "fsys\<lparr>nodes := (nodes fsys)(q \<mapsto> File b2)\<rparr>"
  let ?B1 = "take PG_CONTROL_FILE_SIZE b1"
  let ?B2 = "take PG_CONTROL_FILE_SIZE b2"
  show ?thesis
  proof (cases "inpath = q \<and> sizeof_ControlFileData \<le> length b1")
    case False
    then have same: "read_controlfile din ?fs2 s = read_controlfile din fsys s"
      using assms(1,2)
      unfolding read_controlfile_def inpath_def [symmetric]
      by (auto simp add: Let_def read_controlfile_buffer_def PG_CONTROL_FILE_SIZE_def
          sizeof_ControlFileData_def)
    show ?thesis
    proof (cases "read_controlfile din fsys s")
      case (Inl e)
      with same show ?thesis by simp
    next
      case (Inr r)
      obtain ok t where r: "r = (ok, t)" by (cases r)
      have "ok \<longrightarrow> length (ControlFile t) = sizeof_ControlFileData
                  \<and> (\<exists>v. t = t\<lparr>ControlFile := put32 crc v (ControlFile t),
                                  guessed := guessed t, warnings := warnings t\<rparr>)"
      proof
        assume ok
        then have len: "length (ControlFile t) = sizeof_ControlFileData"
          using read_controlfile_Inr(2) [of din fsys s ok t] Inr r by simp
        then have "t = t\<lparr>ControlFile := put32 crc (get32 crc (ControlFile t)) (ControlFile t),
                         guessed := guessed t, warnings := warnings t\<rparr>"
          by simp
        with len show "length (ControlFile t) = sizeof_ControlFileData
                  \<and> (\<exists>v. t = t\<lparr>ControlFile := put32 crc v (ControlFile t),
                                  guessed := guessed t, warnings := warnings t\<rparr>)"
          by blast
      qed
      then show ?thesis
        using same Inr r read_controlfile_Inr(1) [of din fsys s ok t]
        by auto
    qed
  next
    case True
    have r1: "read_controlfile din fsys s = Inr (read_controlfile_buffer ?B1 s)"
      using True assms(1)
      unfolding read_controlfile_def inpath_def [symmetric]
      by (simp add: Let_def)
    have r2: "read_controlfile din ?fs2 s = Inr (read_controlfile_buffer ?B2 s)"
      using True
      unfolding read_controlfile_def inpath_def [symmetric]
      by (simp add: Let_def)
    have long: "sizeof_ControlFileData \<le> length ?B1"
      using True by (simp add: PG_CONTROL_FILE_SIZE_def sizeof_ControlFileData_def)
    have "?B2 = put32 crc (get32 crc ?B2) ?B1"
    proof (rule differ_only_in_crc)
      show "length ?B1 = length ?B2" using assms(2) by simp
      show "take (offsetof32 crc) ?B1 = take (offsetof32 crc) ?B2"
        using assms(3) by (simp add: PG_CONTROL_FILE_SIZE_def min_def)
      show "drop (offsetof32 crc + 4) ?B1 = drop (offsetof32 crc + 4) ?B2"
        using assms(4) by (simp add: drop_take)
      show "sizeof_ControlFileData \<le> length ?B1" by (rule long)
    qed
    then obtain v where B2: "?B2 = put32 crc v ?B1" ..
    note c = read_controlfile_buffer_crc(1,2) [OF long, where v = v and s = s]
      read_controlfile_buffer_crc(3) [OF long, where s = s]
    have "read_controlfile din fsys s =
            Inr (fst (read_controlfile_buffer ?B1 s), snd (read_controlfile_buffer ?B1 s))"
      using r1 by simp
    moreover have f: "fst (read_controlfile_buffer ?B2 s) = fst (read_controlfile_buffer ?B1 s)"
      by (subst B2) (rule c(1))
    moreover have "read_controlfile din ?fs2 s =
            Inr (fst (read_controlfile_buffer ?B1 s), snd (read_controlfile_buffer ?B2 s))"
      unfolding r2 f [symmetric] by simp
    moreover have "removeAll Invalid_CRC (warnings (snd (read_controlfile_buffer ?B2 s)))
                 = removeAll Invalid_CRC (warnings (snd (read_controlfile_buffer ?B1 s)))"
      using read_controlfile_buffer_warnings_crc [OF long, where v = v and s = s] B2 by simp
    moreover have "fst (read_controlfile_buffer ?B1 s) \<longrightarrow>
        length (ControlFile (snd (read_controlfile_buffer ?B1 s))) = sizeof_ControlFileData
      \<and> (\<exists>v. snd (read_controlfile_buffer ?B2 s) =
             (snd (read_controlfile_buffer ?B1 s))
               \<lparr>ControlFile := put32 crc v (ControlFile (snd (read_controlfile_buffer ?B1 s))),
                guessed := guessed (snd (read_controlfile_buffer ?B2 s)),
                warnings := warnings (snd (read_controlfile_buffer ?B2 s))\<rparr>)"
      using c(2,3) B2 by auto
    ultimately show ?thesis
      using read_controlfile_buffer_keeps [of ?B1 s] read_controlfile_buffer_keeps [of ?B2 s]
      by blast
  qed
qed

lemma finish_other_file:
  assumes "nodes fsys q = Some (File b1)"
    and "drop (offsetof32 crc + 4) b2 = drop (offsetof32 crc + 4) b1"
    and "length (ControlFile t1) = sizeof_ControlFileData"
    and "t2 = t1\<lparr>ControlFile := put32 crc v (ControlFile t1), guessed := g, warnings := w\<rparr>"
  shows "fst (materialize (the (DataDirOut (apply_overrides t2))) (ControlFile (apply_overrides t2))
                (fsys\<lparr>nodes := (nodes fsys)(q \<mapsto> File b2)\<rparr>))
       = fst (materialize (the (DataDirOut (apply_overrides t1))) (ControlFile (apply_overrides t1)) fsys)"
    and "p \<noteq> q \<Longrightarrow>
         nodes (snd (materialize (the (DataDirOut (apply_overrides t2))) (ControlFile (apply_overrides t2))
                (fsys\<lparr>nodes := (nodes fsys)(q \<mapsto> File b2)\<rparr>))) p
       = nodes (snd (materialize (the (DataDirOut (apply_overrides t1))) (ControlFile (apply_overrides t1))
                fsys)) p"
    and "fst (materialize (the (DataDirOut (apply_overrides t1))) (ControlFile (apply_overrides t1)) fsys)
           = None \<Longrightarrow>
         nodes (snd (materialize (the (DataDirOut (apply_overrides t2))) (ControlFile (apply_overrides t2))
                (fsys\<lparr>nodes := (nodes fsys)(q \<mapsto> File b2)\<rparr>)))
               (the (DataDirOut t1) @ ''/'' @ XLOG_CONTROL_FILE)
       = nodes (snd (materialize (the (DataDirOut (apply_overrides t1))) (ControlFile (apply_overrides t1))
                fsys)) (the (DataDirOut t1) @ ''/'' @ XLOG_CONTROL_FILE)"
proof -
  let ?cf = "ControlFile (apply_overrides t1)"
  let ?d = "the (DataDirOut t1)"
  have img: "sizeof_ControlFileData \<le> length (ControlFile t1)"
    using assms(3) by simp
  have len: "length ?cf = sizeof_ControlFileData"
    using assms(3) img by simp
  have o2: "apply_overrides t2 = (apply_overrides t1)\<lparr>ControlFile := put32 crc v ?cf,
              guessed := g, warnings := w\<rparr>"
    unfolding assms(4) using img by (rule apply_overrides_put32_crc)
  have d2: "the (DataDirOut (apply_overrides t2)) = ?d" "the (DataDirOut (apply_overrides t1)) = ?d"
    by (simp_all add: o2 apply_overrides_keeps_log)
  have c2: "ControlFile (apply_overrides t2) = put32 crc v ?cf"
    by (simp add: o2)
  note tails = drop_payload [OF assms(2) len]
  note m = materialize_other_file [OF assms(1) tails, where d = ?d]
  show "fst (materialize (the (DataDirOut (apply_overrides t2))) (ControlFile (apply_overrides t2))
                (fsys\<lparr>nodes := (nodes fsys)(q \<mapsto> File b2)\<rparr>))
       = fst (materialize (the (DataDirOut (apply_overrides t1))) (ControlFile (apply_overrides t1)) fsys)"
    unfolding d2 c2 materialize_put32_crc [OF len] by (rule m(1))
  show "p \<noteq> q \<Longrightarrow>
         nodes (snd (materialize (the (DataDirOut (apply_overrides t2))) (ControlFile (apply_overrides t2))
                (fsys\<lparr>nodes := (nodes fsys)(q \<mapsto> File b2)\<rparr>))) p
       = nodes (snd (materialize (the (DataDirOut (apply_overrides t1))) (ControlFile (apply_overrides t1))
                fsys)) p"
    unfolding d2 c2 materialize_put32_crc [OF len] by (rule m(2))
  show "fst (materialize (the (DataDirOut (apply_overrides t1))) (ControlFile (apply_overrides t1)) fsys)
           = None \<Longrightarrow>
         nodes (snd (materialize (the (DataDirOut (apply_overrides t2))) (ControlFile (apply_overrides t2))
                (fsys\<lparr>nodes := (nodes fsys)(q \<mapsto> File b2)\<rparr>)))
               (the (DataDirOut t1) @ ''/'' @ XLOG_CONTROL_FILE)
       = nodes (snd (materialize (the (DataDirOut (apply_overrides t1))) (ControlFile (apply_overrides t1))
                fsys)) (the (DataDirOut t1) @ ''/'' @ XLOG_CONTROL_FILE)"
    unfolding d2 c2 materialize_put32_crc [OF len] by (rule m(3))
qed


lemma example_options_parsed:
  "getopt_loop example_opts initial_state
     = Inr (initial_state\<lparr>DataDirIn := Some ''in'', DataDirOut := Some ''out'',
              set_xid := 5000, set_xid_epoch := 2\<rparr>)"
  by (simp add: example_opts_def TransactionIdIsNormal_def FirstNormalTransactionId_def Let_def)

lemma example_run_succeeds:
  "fst (main example_argv example_opts [] fs_with_input) = None"
proof -
  let ?s = "initial_state\<lparr>DataDirIn := Some ''in'', DataDirOut := Some ''out'',
              set_xid := 5000, set_xid_epoch := 2\<rparr>"
  note g = example_options_parsed
  have b: "read_controlfile_buffer (take PG_CONTROL_FILE_SIZE example_record) ?s =
             (True, snd (read_controlfile_buffer example_record ?s))"
    using read_controlfile_buffer_fails [of example_record ?s]
    by (cases "read_controlfile_buffer example_record ?s")
       (simp add: PG_CONTROL_FILE_SIZE_def sizeof_ControlFileData_def)
  have r: "read_controlfile ''in'' fs_with_input ?s =
             Inr (True, snd (read_controlfile_buffer example_record ?s))"
    by (simp add: read_controlfile_def Let_def snprintf_def XLOG_CONTROL_FILE_def
        PG_CONTROL_FILE_PATH_SIZE_def fs_with_input_def b)
  have d: "DataDirOut (apply_overrides (snd (read_controlfile_buffer example_record ?s)))
             = Some ''out''"
    by (simp add: apply_overrides_keeps_log read_controlfile_buffer_keeps)
  have m: "fst (materialize ''out'' cf fs_with_input) = None" for cf
    by (simp add: materialize_def make_datadir_out_if_not_exists_def mkdir_def
        open_excl_creat_def update_controlfile_def Let_def snprintf_def
        XLOG_CONTROL_FILE_def PG_CONTROL_FILE_PATH_SIZE_def fs_with_input_def)
  show ?thesis
    by (simp add: main_def g r d m Let_def split_beta)
qed

text \<open>
  C10.  The stored checksum does not influence the result.  Take a file system in which
  the file at \<open>q\<close> has the content \<open>b1\<close>, and a second content \<open>b2\<close> of the
  same length that agrees with \<open>b1\<close> on every byte before and after the
  \<^verbatim>\<open>crc\<close> member.  Running the program with the same arguments on the file system,
  and on the file system with \<open>b2\<close> at \<open>q\<close> instead, ends with the same exit
  status and leaves the same files at every path other than \<open>q\<close>; when the run
  succeeds, the record file it wrote is the same in both runs, also when it is written
  at \<open>q\<close> itself (a run that only prints the usage text writes no record file).  The two runs print the same warnings apart from \<open>Invalid_CRC\<close>:
  \<^verbatim>\<open>guessed\<close> and that warning are all that a checksum mismatch changes.
\<close>

theorem checksum_noninterference:
  assumes "nodes fsys q = Some (File b1)"
    and "length b2 = length b1"
    and "take (offsetof32 crc) b2 = take (offsetof32 crc) b1"
    and "drop (offsetof32 crc + 4) b2 = drop (offsetof32 crc + 4) b1"
  shows "fst (main argv opts rest (fsys\<lparr>nodes := (nodes fsys)(q \<mapsto> File b2)\<rparr>))
           = fst (main argv opts rest fsys)
       \<and> (\<forall>p. p \<noteq> q \<longrightarrow>
            nodes (fst (snd (main argv opts rest (fsys\<lparr>nodes := (nodes fsys)(q \<mapsto> File b2)\<rparr>)))) p
              = nodes (fst (snd (main argv opts rest fsys))) p)
       \<and> (\<not> help_requested argv \<and> fst (main argv opts rest fsys) = None
            \<and> getopt_loop opts initial_state = Inr s \<longrightarrow>
            nodes (fst (snd (main argv opts rest (fsys\<lparr>nodes := (nodes fsys)(q \<mapsto> File b2)\<rparr>))))
                  (the (DataDirOut s) @ ''/'' @ XLOG_CONTROL_FILE)
              = nodes (fst (snd (main argv opts rest fsys))) (the (DataDirOut s) @ ''/'' @ XLOG_CONTROL_FILE))
       \<and> removeAll Invalid_CRC
            (snd (snd (main argv opts rest (fsys\<lparr>nodes := (nodes fsys)(q \<mapsto> File b2)\<rparr>))))
           = removeAll Invalid_CRC (snd (snd (main argv opts rest fsys)))"
proof (cases "help_requested argv")
  case True
  then show ?thesis by (simp add: main_def)
next
  case nh: False
  show ?thesis
  proof (cases "getopt_loop opts initial_state")
    case (Inl e)
    with nh show ?thesis by (simp add: main_def)
  next
    case (Inr s0)
    let ?fs2 = "fsys\<lparr>nodes := (nodes fsys)(q \<mapsto> File b2)\<rparr>"
    show ?thesis
    proof (cases "rest \<noteq> [] \<or> DataDirIn s0 = None \<or> DataDirOut s0 = None")
      case True
      with Inr nh show ?thesis by (auto simp add: main_def)
    next
      case False
      let ?din = "the (DataDirIn s0)"
      have m1: "main argv opts rest fsys =
         (case read_controlfile ?din fsys s0 of
            Inl e \<Rightarrow> (Some e, fsys, [])
          | Inr (ok, s1) \<Rightarrow>
              if \<not> ok then (Some Could_not_read_control_file, fsys, warnings s1)
              else (fst (materialize (the (DataDirOut (apply_overrides s1)))
                           (ControlFile (apply_overrides s1)) fsys),
                    snd (materialize (the (DataDirOut (apply_overrides s1)))
                           (ControlFile (apply_overrides s1)) fsys),
                    warnings (apply_overrides s1)))"
        using Inr False nh
        by (auto simp add: main_def Let_def split_beta split: sum.splits)
      have m2: "main argv opts rest ?fs2 =
         (case read_controlfile ?din ?fs2 s0 of
            Inl e \<Rightarrow> (Some e, ?fs2, [])
          | Inr (ok, s1) \<Rightarrow>
              if \<not> ok then (Some Could_not_read_control_file, ?fs2, warnings s1)
              else (fst (materialize (the (DataDirOut (apply_overrides s1)))
                           (ControlFile (apply_overrides s1)) ?fs2),
                    snd (materialize (the (DataDirOut (apply_overrides s1)))
                           (ControlFile (apply_overrides s1)) ?fs2),
                    warnings (apply_overrides s1)))"
        using Inr False nh
        by (auto simp add: main_def Let_def split_beta split: sum.splits)
      from read_controlfile_other_file [OF assms, of ?din s0]
      show ?thesis
      proof (elim disjE exE conjE)
        fix e
        assume "read_controlfile ?din fsys s0 = Inl e" "read_controlfile ?din ?fs2 s0 = Inl e"
        then show ?thesis
          unfolding m1 m2 by simp
      next
        fix ok t1 t2
        assume r: "read_controlfile ?din fsys s0 = Inr (ok, t1)"
            "read_controlfile ?din ?fs2 s0 = Inr (ok, t2)"
          and d: "DataDirOut t1 = DataDirOut s0" "DataDirOut t2 = DataDirOut s0"
          and w: "removeAll Invalid_CRC (warnings t2) = removeAll Invalid_CRC (warnings t1)"
          and ok: "ok \<longrightarrow> length (ControlFile t1) = sizeof_ControlFileData
                    \<and> (\<exists>v. t2 = t1\<lparr>ControlFile := put32 crc v (ControlFile t1),
                                    guessed := guessed t2, warnings := warnings t2\<rparr>)"
        show ?thesis
        proof (cases ok)
          case False
          then show ?thesis
            unfolding m1 m2 r using w by simp
        next
          case True
          with ok obtain v where len: "length (ControlFile t1) = sizeof_ControlFileData"
            and t2: "t2 = t1\<lparr>ControlFile := put32 crc v (ControlFile t1),
                              guessed := guessed t2, warnings := warnings t2\<rparr>"
            by blast
          note f = finish_other_file [OF assms(1,4) len t2]
          have s: "getopt_loop opts initial_state = Inr s \<Longrightarrow> DataDirOut s = DataDirOut t1"
            using Inr d(1) by simp
          show ?thesis
            unfolding m1 m2 r
            using True f(1) f(2) f(3) w s
            by (simp add: apply_overrides_keeps_log)
        qed
      qed
    qed
  qed
qed

theorem checksum_noninterference_witness:
  "fst (main example_argv example_opts []
         (fs_with_input\<lparr>nodes := (nodes fs_with_input)
            (''in/global/pg_control'' \<mapsto> File (put32 crc 1 example_record))\<rparr>)) = None
 \<and> nodes (fst (snd (main example_argv example_opts []
         (fs_with_input\<lparr>nodes := (nodes fs_with_input)
            (''in/global/pg_control'' \<mapsto> File (put32 crc 1 example_record))\<rparr>))))
      ''out/global/pg_control''
   = nodes (fst (snd (main example_argv example_opts []
         fs_with_input))) ''out/global/pg_control''
 \<and> removeAll Invalid_CRC
      (snd (snd (main example_argv example_opts []
         (fs_with_input\<lparr>nodes := (nodes fs_with_input)
            (''in/global/pg_control'' \<mapsto> File (put32 crc 1 example_record))\<rparr>))))
   = removeAll Invalid_CRC
      (snd (snd (main example_argv example_opts []
         fs_with_input)))"
proof -
  have img: "sizeof_ControlFileData \<le> length example_record" by simp
  have h: "nodes fs_with_input ''in/global/pg_control'' = Some (File example_record)"
      "length (put32 crc 1 example_record) = length example_record"
      "take (offsetof32 crc) (put32 crc 1 example_record) = take (offsetof32 crc) example_record"
      "drop (offsetof32 crc + 4) (put32 crc 1 example_record)
         = drop (offsetof32 crc + 4) example_record"
    using take_crc_put32_crc [OF img] drop_crc_put32_crc [OF img]
    by (simp_all add: fs_with_input_def)
  show ?thesis
    using checksum_noninterference [OF h,
        of example_argv example_opts "[]"
           "initial_state\<lparr>DataDirIn := Some ''in'', DataDirOut := Some ''out'',
              set_xid := 5000, set_xid_epoch := 2\<rparr>"]
      example_run_succeeds example_options_parsed
    by (simp add: XLOG_CONTROL_FILE_def)
qed

section \<open>The all-ones sentinels\<close>

lemma step_keeps_sentinel_settings:
  "set_xid_epoch (choose_WalSegSz s) = set_xid_epoch s \<and> set_mxoff (choose_WalSegSz s) = set_mxoff s"
  "set_xid_epoch (resolve_log_fname s) = set_xid_epoch s \<and> set_mxoff (resolve_log_fname s) = set_mxoff s"
  "set_xid_epoch (apply_set_oid s) = set_xid_epoch s \<and> set_mxoff (apply_set_oid s) = set_mxoff s"
  "set_xid_epoch (apply_set_xid s) = set_xid_epoch s \<and> set_mxoff (apply_set_xid s) = set_mxoff s"
  "set_xid_epoch (apply_set_mxid s) = set_xid_epoch s \<and> set_mxoff (apply_set_mxid s) = set_mxoff s"
  "set_xid_epoch (apply_set_mxoff s) = set_xid_epoch s \<and> set_mxoff (apply_set_mxoff s) = set_mxoff s"
  "set_xid_epoch (apply_minXlogTli s) = set_xid_epoch s \<and> set_mxoff (apply_minXlogTli s) = set_mxoff s"
  "set_xid_epoch (apply_set_oldest_commit_ts_xid s) = set_xid_epoch s \<and>
     set_mxoff (apply_set_oldest_commit_ts_xid s) = set_mxoff s"
  "set_xid_epoch (apply_set_newest_commit_ts_xid s) = set_xid_epoch s \<and>
     set_mxoff (apply_set_newest_commit_ts_xid s) = set_mxoff s"
  "set_xid_epoch (apply_set_xid_epoch s) = set_xid_epoch s \<and> set_mxoff (apply_set_xid_epoch s) = set_mxoff s"
  "set_xid_epoch (apply_set_oldest_xid s) = set_xid_epoch s \<and> set_mxoff (apply_set_oldest_xid s) = set_mxoff s"
  "set_xid_epoch (apply_set_wal_segsize s) = set_xid_epoch s \<and> set_mxoff (apply_set_wal_segsize s) = set_mxoff s"
  by (simp_all add: step_defs Let_def split: option.split prod.split)

lemma epoch_after_overrides:
  assumes "sizeof_ControlFileData \<le> length (ControlFile s)"
  shows "EpochFromFullTransactionId (get64 nextXid (ControlFile (apply_overrides s))) =
           (if set_xid_epoch s \<noteq> - 1 then set_xid_epoch s
            else EpochFromFullTransactionId (get64 nextXid (ControlFile s)))"
  using assms
  by (simp add: apply_overrides_def epoch_step step_keeps_sentinel_settings)

lemma mxoff_after_overrides:
  assumes "sizeof_ControlFileData \<le> length (ControlFile s)"
  shows "get32 nextMultiOffset (ControlFile (apply_overrides s)) =
           (if set_mxoff s \<noteq> - 1 then set_mxoff s else get32 nextMultiOffset (ControlFile s))"
  using assms
  by (simp add: apply_overrides_def mxoff_step step_keeps_sentinel_settings)

lemma get64_append:
  "offsetof64 f + 8 \<le> length a \<Longrightarrow> get64 f (a @ b) = get64 f a"
  by (simp add: get64_def load64_def load_bytes_def)

lemma sentinels_in_update_controlfile_buffer:
  assumes "length cf = sizeof_ControlFileData"
  shows "get64 nextXid (update_controlfile_buffer cf) = get64 nextXid cf"
    and "get32 nextMultiOffset (update_controlfile_buffer cf) = get32 nextMultiOffset cf"
  using assms
  by (simp_all add: update_controlfile_buffer_def Let_def get64_append get32_append
      sizeof_ControlFileData_def)

lemma record_with_sentinels_simps [simp]:
  "length record_with_sentinels = sizeof_ControlFileData"
  "get32 pg_control_version record_with_sentinels = PG_CONTROL_VERSION"
  "get32 xlog_seg_size record_with_sentinels = 16777216"
  "get64 nextXid record_with_sentinels = - 1"
  "get32 nextMultiOffset record_with_sentinels = - 1"
  by (simp_all add: record_with_sentinels_def sizeof_ControlFileData_def)

text \<open>
  C7, as the claim states it, fails in two ways.  The record file at
  \<^verbatim>\<open>in/global/pg_control\<close> holds all ones as the epoch and as
  \<^verbatim>\<open>nextMultiOffset\<close>.  The run \<^verbatim>\<open>-D in -d out -x 5000\<close> succeeds, and the record
  file it writes holds all ones in both members: the values read are written back
  (lines 378--411 and 275--330 do not look at them).  And the run
  \<^verbatim>\<open>--help -e 4294967295\<close> supplies the all-ones value as the epoch and is not
  rejected: it exits with status 0 at lines 76--83, before the options are read.
\<close>

theorem sentinels_read_are_written_back:
  "EpochFromFullTransactionId (get64 nextXid record_with_sentinels) = - 1
 \<and> get32 nextMultiOffset record_with_sentinels = - 1
 \<and> fst (main [''pg_control_editor'', ''-D'', ''in'', ''-d'', ''out'', ''-x'', ''5000'']
           [Opt_D ''in'', Opt_d ''out'', Opt_x (parsed 5000)] [] fs_with_sentinels) = None
 \<and> (\<exists>content.
       nodes (fst (snd (main [''pg_control_editor'', ''-D'', ''in'', ''-d'', ''out'', ''-x'', ''5000'']
          [Opt_D ''in'', Opt_d ''out'', Opt_x (parsed 5000)] [] fs_with_sentinels)))
         ''out/global/pg_control'' = Some (File content)
     \<and> EpochFromFullTransactionId (get64 nextXid content) = - 1
     \<and> get32 nextMultiOffset content = - 1)
 \<and> main [''pg_control_editor'', ''--help'', ''-e'', ''4294967295'']
      [Opt_unknown, Opt_e (parsed 0xFFFFFFFF)] [] empty_fs = (None, empty_fs, [])"
proof -
  let ?argv = "[''pg_control_editor'', ''-D'', ''in'', ''-d'', ''out'', ''-x'', ''5000'']"
  let ?opts = "[Opt_D ''in'', Opt_d ''out'', Opt_x (parsed 5000)]"
  let ?s = "initial_state\<lparr>DataDirIn := Some ''in'', DataDirOut := Some ''out'', set_xid := 5000\<rparr>"
  define t where "t = snd (read_controlfile_buffer record_with_sentinels ?s)"
  define cf where "cf = ControlFile (apply_overrides t)"
  have g: "getopt_loop ?opts initial_state = Inr ?s"
    by (simp add: TransactionIdIsNormal_def FirstNormalTransactionId_def Let_def)
  have b: "read_controlfile_buffer (take PG_CONTROL_FILE_SIZE record_with_sentinels) ?s = (True, t)"
    using read_controlfile_buffer_fails [of record_with_sentinels ?s]
    by (cases "read_controlfile_buffer record_with_sentinels ?s")
       (simp add: t_def PG_CONTROL_FILE_SIZE_def sizeof_ControlFileData_def)
  have r: "read_controlfile ''in'' fs_with_sentinels ?s = Inr (True, t)"
    by (simp add: read_controlfile_def Let_def snprintf_def XLOG_CONTROL_FILE_def
        PG_CONTROL_FILE_PATH_SIZE_def fs_with_sentinels_def b)
  have t: "ControlFile t = record_with_sentinels" "set_xid_epoch t = - 1" "set_mxoff t = - 1"
    using read_controlfile_buffer_succeeds [of record_with_sentinels ?s]
    by (simp_all add: t_def initial_state_def)
  have d: "DataDirOut (apply_overrides t) = Some ''out''"
    by (simp add: t_def apply_overrides_keeps_log read_controlfile_buffer_keeps)
  have len: "length cf = sizeof_ControlFileData"
    by (simp add: cf_def t)
  have c1: "EpochFromFullTransactionId (get64 nextXid record_with_sentinels) = - 1"
    by (simp add: EpochFromFullTransactionId_def ucast_mask_32)
  have e: "EpochFromFullTransactionId (get64 nextXid cf) = - 1"
    using epoch_after_overrides [of t] c1
    by (simp add: cf_def t)
  have o: "get32 nextMultiOffset cf = - 1"
    using mxoff_after_overrides [of t] by (simp add: cf_def t)
  have m: "materialize ''out'' cf fs_with_sentinels =
             (None, fs_with_sentinels\<lparr>nodes :=
                [''in/global/pg_control'' \<mapsto> File record_with_sentinels,
                 ''out'' \<mapsto> Dir, ''out/global'' \<mapsto> Dir,
                 ''out/global/pg_control'' \<mapsto> File (update_controlfile_buffer cf)]\<rparr>)"
    by (simp add: materialize_def make_datadir_out_if_not_exists_def mkdir_def
        open_excl_creat_def update_controlfile_def Let_def snprintf_def
        XLOG_CONTROL_FILE_def PG_CONTROL_FILE_PATH_SIZE_def fs_with_sentinels_def)
  have run: "main ?argv ?opts [] fs_with_sentinels =
               (None, fs_with_sentinels\<lparr>nodes :=
                [''in/global/pg_control'' \<mapsto> File record_with_sentinels,
                 ''out'' \<mapsto> Dir, ''out/global'' \<mapsto> Dir,
                 ''out/global/pg_control'' \<mapsto> File (update_controlfile_buffer cf)]\<rparr>,
                warnings (apply_overrides t))"
    unfolding main_def g
    by (simp add: r d m cf_def [symmetric] Let_def)
  have c3: "fst (main ?argv ?opts [] fs_with_sentinels) = None"
    unfolding run by simp
  have c4: "\<exists>content.
       nodes (fst (snd (main ?argv ?opts [] fs_with_sentinels))) ''out/global/pg_control''
         = Some (File content)
     \<and> EpochFromFullTransactionId (get64 nextXid content) = - 1
     \<and> get32 nextMultiOffset content = - 1"
    unfolding run
    using e o sentinels_in_update_controlfile_buffer [OF len]
    by simp
  have c5: "main [''pg_control_editor'', ''--help'', ''-e'', ''4294967295'']
      [Opt_unknown, Opt_e (parsed 0xFFFFFFFF)] [] empty_fs = (None, empty_fs, [])"
    by (simp add: main_help)
  from c1 c3 c4 c5 show ?thesis
    by simp
qed

text \<open>
  C7, amended.  Let \<^verbatim>\<open>strtoul\<close> have parsed a value whose low 32 bits are all ones.
  Given as the epoch (option \<^verbatim>\<open>-e\<close>, lines 190--203) it is rejected with
  \<open>Epoch_must_not_be_minus_1\<close> (InvalidEpoch); given as the multi-transaction offset
  (option \<^verbatim>\<open>-O\<close>, lines 151--162) it is rejected with
  \<open>Mxoff_must_not_be_minus_1\<close> (InvalidOffset), whatever the state.  A run of the
  program with such an option whose first argument does not ask for help exits with
  an error and leaves the file system as it found it, no record having been read or
  written; the error is the one named above when the options before it were accepted.
  The overrides store the epoch and the offset that were set, and keep those of the
  record when none was set (all ones in \<^verbatim>\<open>set_xid_epoch\<close> and \<^verbatim>\<open>set_mxoff\<close>, their
  initial values, stand for that).  So the overrides never introduce the sentinel: if
  the epoch, or \<^verbatim>\<open>nextMultiOffset\<close>, is all ones after the overrides were applied to
  a record, it was all ones in that record before.
\<close>

theorem sentinel_rejected_without_help:
  assumes "\<not> not_fully_parsed r"
    and "ucast (ul_value r) = (- 1 :: uint32)"
    and "\<not> help_requested argv"
    and "length (ControlFile t) = sizeof_ControlFileData"
  shows "getopt_case (Opt_e r) s = Inl Epoch_must_not_be_minus_1
       \<and> getopt_case (Opt_O r) s = Inl Mxoff_must_not_be_minus_1
       \<and> fst (main argv (before @ Opt_e r # after) rest fsys) \<noteq> None
       \<and> fst (snd (main argv (before @ Opt_e r # after) rest fsys)) = fsys
       \<and> fst (main argv (before @ Opt_O r # after) rest fsys) \<noteq> None
       \<and> fst (snd (main argv (before @ Opt_O r # after) rest fsys)) = fsys
       \<and> (getopt_loop before initial_state = Inr s \<longrightarrow>
            main argv (before @ Opt_e r # after) rest fsys = (Some Epoch_must_not_be_minus_1, fsys, [])
          \<and> main argv (before @ Opt_O r # after) rest fsys = (Some Mxoff_must_not_be_minus_1, fsys, []))
       \<and> EpochFromFullTransactionId (get64 nextXid (ControlFile (apply_overrides t))) =
            (if set_xid_epoch t \<noteq> - 1 then set_xid_epoch t
             else EpochFromFullTransactionId (get64 nextXid (ControlFile t)))
       \<and> get32 nextMultiOffset (ControlFile (apply_overrides t)) =
            (if set_mxoff t \<noteq> - 1 then set_mxoff t else get32 nextMultiOffset (ControlFile t))
       \<and> (EpochFromFullTransactionId (get64 nextXid (ControlFile (apply_overrides t))) = - 1
            \<longrightarrow> EpochFromFullTransactionId (get64 nextXid (ControlFile t)) = - 1)
       \<and> (get32 nextMultiOffset (ControlFile (apply_overrides t)) = - 1
            \<longrightarrow> get32 nextMultiOffset (ControlFile t) = - 1)"
proof -
  have e: "getopt_case (Opt_e r) s' = Inl Epoch_must_not_be_minus_1" for s'
    using assms(1,2) by simp
  have O: "getopt_case (Opt_O r) s' = Inl Mxoff_must_not_be_minus_1" for s'
    using assms(1,2) by simp
  have img: "sizeof_ControlFileData \<le> length (ControlFile t)"
    using assms(4) by simp
  note nh = assms(3)
  show ?thesis
    using e [of s] O [of s]
      main_rejected_whatever_precedes [of argv "Opt_e r", OF nh e, of before after rest fsys]
      main_rejected_whatever_precedes [of argv "Opt_O r", OF nh O, of before after rest fsys]
      main_rejected [of argv before s "Opt_e r", OF nh _ e, of after rest fsys]
      main_rejected [of argv before s "Opt_O r", OF nh _ O, of after rest fsys]
      epoch_never_minus_1 [OF img] mxoff_never_minus_1 [OF img]
      epoch_after_overrides [OF img] mxoff_after_overrides [OF img]
    by blast
qed

theorem sentinel_rejected_without_help_witness:
  "getopt_case (Opt_e (parsed 0xFFFFFFFF)) (initial_state\<lparr>DataDirIn := Some ''in''\<rparr>)
     = Inl Epoch_must_not_be_minus_1
 \<and> getopt_case (Opt_O (parsed 0xFFFFFFFF)) (initial_state\<lparr>DataDirIn := Some ''in''\<rparr>)
     = Inl Mxoff_must_not_be_minus_1
 \<and> main [''pg_control_editor'', ''-D'', ''in'', ''-e'', ''4294967295'', ''-d'', ''out'']
      ([Opt_D ''in''] @ Opt_e (parsed 0xFFFFFFFF) # [Opt_d ''out'']) [] empty_fs
     = (Some Epoch_must_not_be_minus_1, empty_fs, [])
 \<and> main [''pg_control_editor'', ''-D'', ''in'', ''-O'', ''4294967295'', ''-d'', ''out'']
      ([Opt_D ''in''] @ Opt_O (parsed 0xFFFFFFFF) # [Opt_d ''out'']) [] empty_fs
     = (Some Mxoff_must_not_be_minus_1, empty_fs, [])
 \<and> EpochFromFullTransactionId (get64 nextXid
       (put32 nextMultiOffset (- 1) (put64 nextXid (- 1) (ControlFile initial_state)))) = - 1
 \<and> get32 nextMultiOffset
       (put32 nextMultiOffset (- 1) (put64 nextXid (- 1) (ControlFile initial_state))) = - 1
 \<and> EpochFromFullTransactionId (get64 nextXid (ControlFile (apply_overrides
       (initial_state\<lparr>ControlFile :=
          put32 nextMultiOffset (- 1) (put64 nextXid (- 1) (ControlFile initial_state))\<rparr>)))) = - 1
 \<and> get32 nextMultiOffset (ControlFile (apply_overrides
       (initial_state\<lparr>ControlFile :=
          put32 nextMultiOffset (- 1) (put64 nextXid (- 1) (ControlFile initial_state))\<rparr>))) = - 1"
  using sentinel_rejected_without_help
    [of "parsed 0xFFFFFFFF"
        "[''pg_control_editor'', ''-D'', ''in'', ''-e'', ''4294967295'', ''-d'', ''out'']"
        "initial_state\<lparr>ControlFile :=
           put32 nextMultiOffset (- 1) (put64 nextXid (- 1) (ControlFile initial_state))\<rparr>"
        "initial_state\<lparr>DataDirIn := Some ''in''\<rparr>"
        "[Opt_D ''in'']" "[Opt_d ''out'']" "[]" empty_fs]
    sentinel_rejected_without_help
    [of "parsed 0xFFFFFFFF"
        "[''pg_control_editor'', ''-D'', ''in'', ''-O'', ''4294967295'', ''-d'', ''out'']"
        "initial_state\<lparr>ControlFile :=
           put32 nextMultiOffset (- 1) (put64 nextXid (- 1) (ControlFile initial_state))\<rparr>"
        "initial_state\<lparr>DataDirIn := Some ''in''\<rparr>"
        "[Opt_D ''in'']" "[Opt_d ''out'']" "[]" empty_fs]
  by (simp add: initial_state_def EpochFromFullTransactionId_def ucast_mask_32)

end
